theory Spec2Isabelle
  imports Main
begin

section \<open>Python values shared by the modules\<close>

text \<open>
  The exceptions the modelled code can raise. A function that can raise returns
  \<open>py_error + 'a\<close>, with \<open>Inl\<close> for the exception.
\<close>

datatype py_error =
    ValueError
  | TypeError
  | AttributeError
  | IndexError
  | ZeroDivisionError
  | OverflowError
  | RecursionError
  | MemoryError
  | UnicodeError
  | AccessError
  | BackEndError

text \<open>
  Byte strings and text strings are lists of characters. The model does not fix what a
  character of a text string is: the operations that depend on it (\<open>str.lower\<close>, the
  regular expressions, what \<open>int\<close> reads as a number) are parameters.
\<close>

type_synonym bytes = "char list"

text \<open>
  Python's slice bounds: a negative bound counts from the end, and a bound outside the
  sequence is clamped to it. \<open>slice_from xs i\<close> is \<open>xs[i:]\<close>, \<open>slice_upto xs i\<close> is
  \<open>xs[:i]\<close>.
\<close>

definition slice_bound :: "'a list \<Rightarrow> int \<Rightarrow> nat" where
  "slice_bound xs i =
     (let n = int (length xs);
          j = (if i < 0 then n + i else i)
      in nat (max 0 (min n j)))"

definition slice_from :: "'a list \<Rightarrow> int \<Rightarrow> 'a list" where
  "slice_from xs i = drop (slice_bound xs i) xs"

definition slice_upto :: "'a list \<Rightarrow> int \<Rightarrow> 'a list" where
  "slice_upto xs i = take (slice_bound xs i) xs"

text \<open>
  The position that Python's index \<open>i\<close> names in a sequence of \<open>n\<close> items: \<open>i\<close> itself
  from \<open>0\<close> to \<open>n - 1\<close>, \<open>n + i\<close> from \<open>- n\<close> to \<open>- 1\<close>, and no position otherwise.
\<close>

definition position :: "nat \<Rightarrow> int \<Rightarrow> nat option" where
  "position n i =
     (if 0 \<le> i \<and> i < int n then Some (nat i)
      else if - int n \<le> i \<and> i < 0 then Some (nat (int n + i))
      else None)"

text \<open>\<open>xs[i]\<close>, which raises \<open>IndexError\<close> where there is no such position.\<close>

definition get_item :: "'a list \<Rightarrow> int \<Rightarrow> py_error + 'a" where
  "get_item xs i =
     (case position (length xs) i of
        Some k \<Rightarrow> Inr (xs ! k)
      | None \<Rightarrow> Inl IndexError)"

text \<open>
  \<open>xs[i] = v\<close>. The source assigns only at an index it has just read, so the model has
  no exception here.
\<close>

definition set_item :: "'a list \<Rightarrow> int \<Rightarrow> 'a \<Rightarrow> 'a list" where
  "set_item xs i v =
     (case position (length xs) i of
        Some k \<Rightarrow> xs[k := v]
      | None \<Rightarrow> xs)"

definition startswith :: "string \<Rightarrow> string \<Rightarrow> bool" where
  "startswith s p = (take (length p) s = p)"


section \<open>dfvfs/encryption/aes\_decrypter.py\<close>

text \<open>
  The cipher mode argument. The four supported values are the constants
  \<open>definitions.ENCRYPTION_MODE_*\<close>; any other string is \<open>OTHER_MODE\<close>, and an
  argument left out is \<open>None\<close>.
\<close>

datatype cipher_mode =
    ENCRYPTION_MODE_CBC
  | ENCRYPTION_MODE_CFB
  | ENCRYPTION_MODE_ECB
  | ENCRYPTION_MODE_OFB
  | OTHER_MODE string

definition ENCRYPTION_MODES :: "cipher_mode list" where
  "ENCRYPTION_MODES =
     [ENCRYPTION_MODE_CBC, ENCRYPTION_MODE_CFB, ENCRYPTION_MODE_ECB, ENCRYPTION_MODE_OFB]"

text \<open>
  The mode objects of the cipher library: \<open>modes.CBC(initialization_vector)\<close> and so
  on, with the argument as the constructor received it.
\<close>

datatype modes = CBC "bytes option" | CFB "bytes option" | ECB | OFB "bytes option"

text \<open>
  The cipher library (the \<open>cryptography\<close> package) is not part of the repository. It is
  a parameter of the model:
  \<^item> \<open>algorithms_AES key\<close> is \<open>algorithms.AES(key)\<close>, which raises for a key it does not
    accept;
  \<^item> \<open>block_size alg\<close> is the attribute \<open>block_size\<close> of the algorithm object;
  \<^item> \<open>decryptor alg mode\<close> is \<open>ciphers.Cipher(alg, mode, backend).decryptor()\<close>, which
    raises for a mode that does not fit the algorithm;
  \<^item> \<open>update ctx data\<close> is \<open>ctx.update(data)\<close>: the bytes it returns and the context
    after the call.
\<close>

record ('alg, 'ctx) cipher_library =
  algorithms_AES :: "bytes \<Rightarrow> py_error + 'alg"
  block_size :: "'alg \<Rightarrow> int"
  decryptor :: "'alg \<Rightarrow> modes \<Rightarrow> py_error + 'ctx"
  update :: "'ctx \<Rightarrow> bytes \<Rightarrow> bytes \<times> 'ctx"

record ('alg, 'ctx) AESDecrypter =
  algorithm :: 'alg
  cipher_context :: 'ctx

text \<open>Python's \<open>not x\<close> for an optional byte string: \<open>None\<close> and \<open>b''\<close> are false.\<close>

definition py_not :: "bytes option \<Rightarrow> bool" where
  "py_not x = (x = None \<or> x = Some [])"

text \<open>
  The mode object that \<open>__init__\<close> builds once its checks have passed (the
  \<open>if\<close>/\<open>elif\<close> chain over the four supported modes).
\<close>

definition mode_object :: "cipher_mode option \<Rightarrow> bytes option \<Rightarrow> modes" where
  "mode_object cipher_mode initialization_vector =
     (if cipher_mode = Some ENCRYPTION_MODE_CBC then CBC initialization_vector
      else if cipher_mode = Some ENCRYPTION_MODE_CFB then CFB initialization_vector
      else if cipher_mode = Some ENCRYPTION_MODE_ECB then ECB
      else OFB initialization_vector)"

text \<open>\<open>cipher_mode not in self._ENCRYPTION_MODES\<close>; \<open>None\<close> is not in the set.\<close>

definition unsupported_mode :: "cipher_mode option \<Rightarrow> bool" where
  "unsupported_mode cipher_mode =
     (case cipher_mode of None \<Rightarrow> True | Some m \<Rightarrow> m \<notin> set ENCRYPTION_MODES)"

text \<open>
  \<open>AESDecrypter.__init__(cipher_mode, initialization_vector, key)\<close>. The three checks
  come first, in the source's order; then the mode object, the algorithm and the cipher
  context are built by the library, whose exceptions are not caught.
\<close>

definition AESDecrypter_init ::
  "('alg, 'ctx) cipher_library \<Rightarrow> cipher_mode option \<Rightarrow> bytes option \<Rightarrow> bytes option
     \<Rightarrow> py_error + ('alg, 'ctx) AESDecrypter" where
  "AESDecrypter_init lib cipher_mode initialization_vector key =
     (if py_not key then Inl ValueError
      else if unsupported_mode cipher_mode then Inl ValueError
      else if cipher_mode \<noteq> Some ENCRYPTION_MODE_ECB \<and> py_not initialization_vector
        then Inl ValueError
      else
        let mode = mode_object cipher_mode initialization_vector
        in case algorithms_AES lib (case key of Some k \<Rightarrow> k | None \<Rightarrow> []) of
             Inl e \<Rightarrow> Inl e
           | Inr alg \<Rightarrow>
               (case decryptor lib alg mode of
                  Inl e \<Rightarrow> Inl e
                | Inr ctx \<Rightarrow> Inr \<lparr>algorithm = alg, cipher_context = ctx\<rparr>))"

text \<open>
  \<open>AESDecrypter.Decrypt(encrypted_data)\<close>: the decrypted data, the remaining encrypted
  data, and the decrypter with its cipher context advanced. \<open>%\<close> by zero raises.
\<close>

definition Decrypt ::
  "('alg, 'ctx) cipher_library \<Rightarrow> ('alg, 'ctx) AESDecrypter \<Rightarrow> bytes
     \<Rightarrow> py_error + ((bytes \<times> bytes) \<times> ('alg, 'ctx) AESDecrypter)" where
  "Decrypt lib self encrypted_data =
     (let bs = block_size lib (algorithm self)
      in if bs = 0 then Inl ZeroDivisionError
         else
           let index_split = - (int (length encrypted_data) mod bs);
               remaining_encrypted_data =
                 (if index_split \<noteq> 0 then slice_from encrypted_data index_split else []);
               encrypted_data' =
                 (if index_split \<noteq> 0 then slice_upto encrypted_data index_split
                  else encrypted_data);
               (decrypted_data, ctx') = update lib (cipher_context self) encrypted_data'
           in Inr ((decrypted_data, remaining_encrypted_data),
                   self\<lparr>cipher_context := ctx'\<rparr>))"

text \<open>
  A small cipher library for closed examples. It accepts the AES key sizes (16, 24 and
  32 bytes) and initialization vectors of one block (16 bytes), as the repository's
  tests of the constructor expect (there a 14-byte key and a 13-byte vector raise
  \<open>ValueError\<close>). Its \<open>block_size\<close> is 128: the attribute \<open>block_size\<close> of
  \<open>algorithms.AES\<close> in the \<open>cryptography\<close> package is the size of the block in bits.
  Its context is the value of the last byte consumed, and \<open>update\<close> adds to each byte
  the byte before it, so the result of a call depends on the calls before. It stands for
  the library only where an example needs some library to run.
\<close>

fun example_update :: "nat \<Rightarrow> bytes \<Rightarrow> bytes \<times> nat" where
  "example_update prev [] = ([], prev)"
| "example_update prev (c # cs) =
     (let (ps, st) = example_update (of_char c) cs
      in (char_of (of_char c + prev) # ps, st))"

definition iv_accepted :: "bytes option \<Rightarrow> bool" where
  "iv_accepted iv = (case iv of Some v \<Rightarrow> length v = 16 | None \<Rightarrow> False)"

definition example_library :: "(nat, nat) cipher_library" where
  "example_library =
     \<lparr>algorithms_AES = (\<lambda>key. if length key \<in> {16, 24, 32} then Inr (length key)
                               else Inl ValueError),
      block_size = (\<lambda>_. 128),
      decryptor = (\<lambda>alg mode.
        case mode of
          ECB \<Rightarrow> Inr 0
        | CBC iv \<Rightarrow> if iv_accepted iv then Inr 0 else Inl ValueError
        | CFB iv \<Rightarrow> if iv_accepted iv then Inr 0 else Inl ValueError
        | OFB iv \<Rightarrow> if iv_accepted iv then Inr 0 else Inl ValueError),
      update = example_update\<rparr>"

text \<open>A decrypter over the example library, before any call of \<open>Decrypt\<close>.\<close>

definition example_decrypter :: "(nat, nat) AESDecrypter" where
  "example_decrypter = \<lparr>algorithm = 16, cipher_context = 0\<rparr>"


section \<open>dfvfs/helpers/file\_system\_searcher.py\<close>

subsection \<open>The collaborators: regular expressions, file entries, file systems\<close>

text \<open>
  What the module takes from the Python interpreter is a parameter of the model:
  \<^item> \<open>re_compile pattern flags\<close> is the body of the \<open>try\<close> of \<open>Matches\<close>, where the
    pattern is formatted and \<open>re.compile(pattern, flags=flags)\<close> is called: the
    compiled pattern, or the exception raised, which is \<open>sre_constants.error\<close> for a
    pattern that is not a regular expression and can be another one (\<open>OverflowError\<close>
    for a repetition count that is too large, \<open>RecursionError\<close>, \<open>MemoryError\<close>, a
    \<open>UnicodeError\<close> of the formatting, \<open>ValueError\<close> or \<open>TypeError\<close> for flags or a
    pattern of the wrong kind);
  \<^item> \<open>re_match r s\<close> says whether \<open>r.match(s)\<close> is a match object;
  \<^item> \<open>str_lower s\<close> is \<open>s.lower()\<close>.
  The type \<open>'r\<close> is the type of compiled patterns.
\<close>

datatype re_flag = DOTALL | UNICODE | IGNORECASE

datatype re_exception =
    sre_constants_error
  | re_OverflowError
  | re_RecursionError
  | re_MemoryError
  | re_UnicodeError
  | re_ValueError
  | re_TypeError

record 'r python =
  re_compile :: "string \<Rightarrow> re_flag list \<Rightarrow> re_exception + 'r"
  re_match :: "'r \<Rightarrow> string \<Rightarrow> bool"
  str_lower :: "string \<Rightarrow> string"

text \<open>The constants \<open>definitions.FILE_ENTRY_TYPE_*\<close>.\<close>

datatype file_entry_type =
    FILE_ENTRY_TYPE_DEVICE
  | FILE_ENTRY_TYPE_DIRECTORY
  | FILE_ENTRY_TYPE_FILE
  | FILE_ENTRY_TYPE_LINK
  | FILE_ENTRY_TYPE_PIPE
  | FILE_ENTRY_TYPE_SOCKET

text \<open>
  What the searcher reads of a file entry (an instance of \<open>vfs.FileEntry\<close>, supplied by
  the file system back end): its name, its path specification and the answers of its
  \<open>Is...()\<close> methods.
\<close>

record 'ps file_entry_attributes =
  name :: string
  path_spec :: 'ps
  IsAllocated :: bool
  IsDevice :: bool
  IsDirectory :: bool
  IsFile :: bool
  IsLink :: bool
  IsPipe :: bool
  IsSocket :: bool

text \<open>
  A file entry with its sub file entries. Iterating \<open>file_entry.sub_file_entries\<close> yields
  the entries of the list and then either ends (\<open>None\<close>) or raises the given exception.
\<close>

datatype 'ps file_entry =
  FileEntry
    (attributes: "'ps file_entry_attributes")
    (sub_file_entries: "'ps file_entry list")
    (sub_file_entries_raises: "py_error option")

text \<open>
  The file system type indicators: the two of \<open>_PARENTLESS_TYPE_INDICATORS\<close>
  (\<open>definitions.TYPE_INDICATOR_FAKE\<close> and \<open>definitions.TYPE_INDICATOR_OS\<close>), and any other.
\<close>

datatype type_indicator =
    TYPE_INDICATOR_FAKE
  | TYPE_INDICATOR_OS
  | TYPE_INDICATOR_OTHER string

definition PARENTLESS_TYPE_INDICATORS :: "type_indicator list" where
  "PARENTLESS_TYPE_INDICATORS = [TYPE_INDICATOR_FAKE, TYPE_INDICATOR_OS]"

text \<open>
  The file system object (an instance of \<open>vfs.FileSystem\<close>), a parameter of the model.
  The two lookups return \<open>None\<close> where the back end returns no file entry.
\<close>

record 'ps file_system =
  type_indicator :: type_indicator
  SplitPath :: "string \<Rightarrow> string list"
  GetRootFileEntry :: "'ps file_entry option"
  GetFileEntryByPathSpec :: "'ps \<Rightarrow> 'ps file_entry option"

subsection \<open>FindSpec\<close>

text \<open>
  A location segment is a string, or the compiled pattern that \<open>Matches\<close> has stored in
  its place.
\<close>

datatype 'r segment = Str string | Pattern 'r

text \<open>
  The attributes of a \<open>FindSpec\<close> object; \<open>spec_x\<close> is the attribute \<open>_x\<close> of the source.
\<close>

record 'r FindSpec =
  spec_file_entry_types :: "file_entry_type list option"
  spec_is_allocated :: "bool option"
  spec_is_case_sensitive :: bool
  spec_is_regex :: "bool option"
  spec_location :: "string option"
  spec_location_regex :: "string option"
  spec_location_segments :: "'r segment list option"
  spec_number_of_location_segments :: nat

text \<open>
  The \<open>location\<close> and \<open>location_regex\<close> arguments of the constructor: a string, a list
  of segments, or a value of another type.
\<close>

datatype location_argument =
    LocationString string
  | LocationList "string list"
  | LocationOther

text \<open>
  \<open>FindSpec.__init__\<close>. The defaults of the source are written out by the caller. The
  source keeps the list object it is given as its list of segments; the model gives the
  find specification a list of its own, so it covers the callers that hand a list to one
  find specification and do not write into it afterwards.
\<close>

definition FindSpec_init ::
  "file_entry_type list option \<Rightarrow> bool option \<Rightarrow> location_argument option
     \<Rightarrow> location_argument option \<Rightarrow> bool \<Rightarrow> py_error + 'r FindSpec" where
  "FindSpec_init file_entry_types is_allocated location location_regex case_sensitive =
     (if location \<noteq> None \<and> location_regex \<noteq> None then Inl ValueError
      else
        let self = \<lparr>spec_file_entry_types = file_entry_types,
                    spec_is_allocated = is_allocated,
                    spec_is_case_sensitive = case_sensitive,
                    spec_is_regex = None,
                    spec_location = None,
                    spec_location_regex = None,
                    spec_location_segments = None,
                    spec_number_of_location_segments = 0\<rparr>
        in case location of
             Some (LocationString l) \<Rightarrow>
               Inr (self\<lparr>spec_location := Some l, spec_is_regex := Some False\<rparr>)
           | Some (LocationList ls) \<Rightarrow>
               Inr (self\<lparr>spec_location_segments := Some (map Str ls),
                          spec_is_regex := Some False\<rparr>)
           | Some LocationOther \<Rightarrow> Inl TypeError
           | None \<Rightarrow>
               (case location_regex of
                  Some (LocationString l) \<Rightarrow>
                    Inr (self\<lparr>spec_location_regex := Some l, spec_is_regex := Some True\<rparr>)
                | Some (LocationList ls) \<Rightarrow>
                    Inr (self\<lparr>spec_location_segments := Some (map Str ls),
                               spec_is_regex := Some True\<rparr>)
                | Some LocationOther \<Rightarrow> Inl TypeError
                | None \<Rightarrow> Inr self))"

text \<open>\<open>FindSpec()\<close>: every argument at its default (\<open>is_allocated=True\<close>).\<close>

definition FindSpec_default :: "'r FindSpec" where
  "FindSpec_default =
     \<lparr>spec_file_entry_types = None,
      spec_is_allocated = Some True,
      spec_is_case_sensitive = True,
      spec_is_regex = None,
      spec_location = None,
      spec_location_regex = None,
      spec_location_segments = None,
      spec_number_of_location_segments = 0\<rparr>"

definition CheckIsAllocated :: "'r FindSpec \<Rightarrow> 'ps file_entry_attributes \<Rightarrow> bool" where
  "CheckIsAllocated self file_entry =
     (spec_is_allocated self \<noteq> None \<and>
      spec_is_allocated self = Some (IsAllocated file_entry))"

text \<open>
  The six checks \<open>_CheckIsDevice\<close> to \<open>_CheckIsSocket\<close> differ in the type constant
  and in the method they call; \<open>CheckIs t answer\<close> is their common body.
\<close>

definition CheckIs :: "'r FindSpec \<Rightarrow> file_entry_type \<Rightarrow> bool \<Rightarrow> bool" where
  "CheckIs self t answer =
     (if (case spec_file_entry_types self of
            None \<Rightarrow> False
          | Some types \<Rightarrow> t \<notin> set types)
      then False
      else answer)"

definition CheckFileEntryType :: "'r FindSpec \<Rightarrow> 'ps file_entry_attributes \<Rightarrow> bool" where
  "CheckFileEntryType self file_entry =
     (CheckIs self FILE_ENTRY_TYPE_DEVICE (IsDevice file_entry) \<or>
      CheckIs self FILE_ENTRY_TYPE_DIRECTORY (IsDirectory file_entry) \<or>
      CheckIs self FILE_ENTRY_TYPE_FILE (IsFile file_entry) \<or>
      CheckIs self FILE_ENTRY_TYPE_LINK (IsLink file_entry) \<or>
      CheckIs self FILE_ENTRY_TYPE_PIPE (IsPipe file_entry) \<or>
      CheckIs self FILE_ENTRY_TYPE_SOCKET (IsSocket file_entry))"

definition AtMaximumDepth :: "'r FindSpec \<Rightarrow> int \<Rightarrow> bool" where
  "AtMaximumDepth self search_depth =
     (if spec_location_segments self \<noteq> None
      then (if search_depth = int (spec_number_of_location_segments self) then True
            else False)
      else False)"

definition Initialize :: "'ps file_system \<Rightarrow> 'r FindSpec \<Rightarrow> 'r FindSpec" where
  "Initialize file_system self =
     (let self1 =
            (case spec_location self of
               Some l \<Rightarrow>
                 self\<lparr>spec_location_segments := Some (map Str (SplitPath file_system l))\<rparr>
             | None \<Rightarrow>
                 (case spec_location_regex self of
                    Some l \<Rightarrow>
                      self\<lparr>spec_location_segments :=
                             Some (map Str (SplitPath file_system l))\<rparr>
                  | None \<Rightarrow> self))
      in case spec_location_segments self1 of
           Some segments \<Rightarrow> self1\<lparr>spec_number_of_location_segments := length segments\<rparr>
         | None \<Rightarrow> self1)"

text \<open>
  The flags that \<open>Matches\<close> compiles a segment with: \<open>re.DOTALL | re.UNICODE\<close>, and
  \<open>re.IGNORECASE\<close> for a find specification that is not case sensitive.
\<close>

definition compile_flags :: "'r FindSpec \<Rightarrow> re_flag list" where
  "compile_flags self =
     [DOTALL, UNICODE] @ (if \<not> spec_is_case_sensitive self then [IGNORECASE] else [])"

text \<open>
  The handler \<open>except sre_constants.error: return False\<close> around \<open>re.compile\<close>:
  \<open>uncaught x\<close> is \<open>None\<close> for the exception it catches, and for any other the
  exception that leaves \<open>Matches\<close>.
\<close>

definition uncaught :: "re_exception \<Rightarrow> py_error option" where
  "uncaught x =
     (case x of
        sre_constants_error \<Rightarrow> None
      | re_OverflowError \<Rightarrow> Some OverflowError
      | re_RecursionError \<Rightarrow> Some RecursionError
      | re_MemoryError \<Rightarrow> Some MemoryError
      | re_UnicodeError \<Rightarrow> Some UnicodeError
      | re_ValueError \<Rightarrow> Some ValueError
      | re_TypeError \<Rightarrow> Some TypeError)"

text \<open>
  The first part of the location check of \<open>Matches\<close>, for a search depth in
  \<open>[0, number of segments]\<close>: the segment name to compare with, and the find
  specification with the segment stored back where the source stores it. \<open>Inr None\<close>
  is the \<open>return False\<close> of the handler of \<open>sre_constants.error\<close>; the handler
  catches nothing else, so any other exception of \<open>re.compile\<close> leaves \<open>Matches\<close>.
  Reading the segment raises \<open>IndexError\<close> past the end of the list, and \<open>lower()\<close>
  raises \<open>AttributeError\<close> on a compiled pattern.
\<close>

definition segment_name_at ::
  "'r python \<Rightarrow> 'r FindSpec \<Rightarrow> 'r segment list \<Rightarrow> int
     \<Rightarrow> py_error + ('r segment \<times> 'r FindSpec) option" where
  "segment_name_at py self segments search_depth =
     (if search_depth = 0 then Inr (Some (Str [], self))
      else
        case get_item segments (search_depth - 1) of
          Inl e \<Rightarrow> Inl e
        | Inr segment_name \<Rightarrow>
            if spec_is_regex self = Some True then
              (case segment_name of
                 Str s \<Rightarrow>
                   (let flags = compile_flags self
                    in case re_compile py (''^'' @ s @ ''$'') flags of
                         Inl x \<Rightarrow>
                           (case uncaught x of
                              None \<Rightarrow> Inr None
                            | Some e \<Rightarrow> Inl e)
                       | Inr r \<Rightarrow>
                           Inr (Some (Pattern r,
                             self\<lparr>spec_location_segments :=
                               Some (set_item segments (search_depth - 1) (Pattern r))\<rparr>)))
               | Pattern r \<Rightarrow> Inr (Some (segment_name, self)))
            else if \<not> spec_is_case_sensitive self then
              (case segment_name of
                 Str s \<Rightarrow>
                   Inr (Some (Str (str_lower py s),
                     self\<lparr>spec_location_segments :=
                       Some (set_item segments (search_depth - 1)
                               (Str (str_lower py s)))\<rparr>))
               | Pattern r \<Rightarrow> Inl AttributeError)
            else Inr (Some (segment_name, self)))"

text \<open>
  The second part: the comparison of the segment name with the name of the file entry.
  \<open>Inr False\<close> leads to a \<open>return False\<close>. A string has no \<open>match\<close> method, and a
  compiled pattern is never equal to a string.
\<close>

definition segment_name_matches ::
  "'r python \<Rightarrow> 'r FindSpec \<Rightarrow> 'r segment \<Rightarrow> string \<Rightarrow> int \<Rightarrow> py_error + bool" where
  "segment_name_matches py self segment_name entry_name search_depth =
     (if search_depth > 0 \<and> spec_is_regex self = Some True then
        (case segment_name of
           Pattern r \<Rightarrow> Inr (re_match py r entry_name)
         | Str s \<Rightarrow> Inl AttributeError)
      else if search_depth = 0 \<or> spec_is_case_sensitive self then
        (case segment_name of
           Str s \<Rightarrow> Inr (\<not> s \<noteq> entry_name)
         | Pattern r \<Rightarrow> Inr False)
      else
        (case segment_name of
           Str s \<Rightarrow> Inr (\<not> s \<noteq> str_lower py entry_name)
         | Pattern r \<Rightarrow> Inr False))"

text \<open>
  \<open>FindSpec.Matches(file_entry, search_depth)\<close>: the answer and the find specification
  after the call (the source stores compiled and lower-cased segments in the object).
\<close>

definition Matches ::
  "'r python \<Rightarrow> 'r FindSpec \<Rightarrow> 'ps file_entry_attributes \<Rightarrow> int
     \<Rightarrow> py_error + (bool \<times> 'r FindSpec)" where
  "Matches py self file_entry search_depth =
     (case spec_location_segments self of
        None \<Rightarrow>
          Inr ((if \<not> CheckFileEntryType self file_entry then False
                else if \<not> CheckIsAllocated self file_entry then False
                else True), self)
      | Some segments \<Rightarrow>
          if search_depth < 0 \<or> search_depth > int (spec_number_of_location_segments self)
          then Inr (False, self)
          else
            case segment_name_at py self segments search_depth of
              Inl e \<Rightarrow> Inl e
            | Inr None \<Rightarrow> Inr (False, self)
            | Inr (Some (segment_name, self')) \<Rightarrow>
                (case segment_name_matches py self' segment_name (name file_entry)
                        search_depth of
                   Inl e \<Rightarrow> Inl e
                 | Inr same \<Rightarrow>
                     if \<not> same then Inr (False, self')
                     else if search_depth \<noteq> int (spec_number_of_location_segments self')
                     then Inr (False, self')
                     else
                       Inr ((if \<not> CheckFileEntryType self' file_entry then False
                             else if \<not> CheckIsAllocated self' file_entry then False
                             else True), self')))"

text \<open>
  The state of a find specification that the constructor and \<open>Initialize\<close> establish and
  \<open>Matches\<close> keeps: the number of location segments is the length of the list of
  segments, and the segments of a specification that is not a regular expression are
  strings.
\<close>

definition is_Str :: "'r segment \<Rightarrow> bool" where
  "is_Str seg = (case seg of Str s \<Rightarrow> True | Pattern r \<Rightarrow> False)"

definition FindSpec_ok :: "'r FindSpec \<Rightarrow> bool" where
  "FindSpec_ok self =
     (case spec_location_segments self of
        None \<Rightarrow> True
      | Some segments \<Rightarrow>
          spec_number_of_location_segments self = length segments \<and>
          (spec_is_regex self = Some True \<or> list_all is_Str segments))"

text \<open>
  The interpreter for closed examples, which stands for Python's only where an example
  needs one to run, on strings of ASCII characters. Its \<open>lower\<close> replaces each ASCII
  capital by its small letter and keeps every other character.
\<close>

definition lower_table :: "(char \<times> char) list" where
  "lower_table = zip ''ABCDEFGHIJKLMNOPQRSTUVWXYZ'' ''abcdefghijklmnopqrstuvwxyz''"

definition lower_char :: "char \<Rightarrow> char" where
  "lower_char c = (case map_of lower_table c of Some d \<Rightarrow> d | None \<Rightarrow> c)"

definition example_lower :: "string \<Rightarrow> string" where
  "example_lower s = map lower_char s"

text \<open>
  Its \<open>re.compile\<close> knows the patterns \<open>^text$\<close> where \<open>text\<close> has no special
  character, apart from two cases that Python's \<open>re.compile\<close> refuses: a \<open>[\<close> that is
  never closed raises \<open>sre_constants.error\<close>, and the repetition count
  \<open>{99999999999}\<close> raises \<open>OverflowError\<close>. A compiled pattern is the pattern with the
  \<open>IGNORECASE\<close> flag, and it matches the strings equal to \<open>text\<close>.
\<close>

fun contains :: "string \<Rightarrow> string \<Rightarrow> bool" where
  "contains [] p = (p = [])"
| "contains (c # cs) p = (startswith (c # cs) p \<or> contains cs p)"

definition example_python :: "(string \<times> bool) python" where
  "example_python =
     \<lparr>re_compile = (\<lambda>pattern flags.
        if contains pattern ''{99999999999}'' then Inl re_OverflowError
        else if CHR ''['' \<in> set pattern \<and> CHR '']'' \<notin> set pattern
        then Inl sre_constants_error
        else Inr (pattern, IGNORECASE \<in> set flags)),
      re_match = (\<lambda>r s.
        if snd r then example_lower (fst r) = ''^'' @ example_lower s @ ''$''
        else fst r = ''^'' @ s @ ''$''),
      str_lower = example_lower\<rparr>"

text \<open>
  The object that \<open>FindSpec(location=segments, case_sensitive=...)\<close> builds from a
  list of segments (with \<open>regex\<close>: \<open>FindSpec(location_regex=segments, ...)\<close>), before
  \<open>Initialize\<close>; and the object that \<open>FindSpec(is_allocated=None)\<close> builds.
\<close>

definition location_spec :: "string list \<Rightarrow> bool \<Rightarrow> bool \<Rightarrow> 'r FindSpec" where
  "location_spec segments regex case_sensitive =
     \<lparr>spec_file_entry_types = None,
      spec_is_allocated = Some True,
      spec_is_case_sensitive = case_sensitive,
      spec_is_regex = Some regex,
      spec_location = None,
      spec_location_regex = None,
      spec_location_segments = Some (map Str segments),
      spec_number_of_location_segments = 0\<rparr>"

definition no_preference_spec :: "'r FindSpec" where
  "no_preference_spec =
     \<lparr>spec_file_entry_types = None,
      spec_is_allocated = None,
      spec_is_case_sensitive = True,
      spec_is_regex = None,
      spec_location = None,
      spec_location_regex = None,
      spec_location_segments = None,
      spec_number_of_location_segments = 0\<rparr>"

text \<open>
  File entries for closed examples: the tree \<open>/\<close>, \<open>/a\<close>, \<open>/a/b\<close>, \<open>/c\<close>,
  where the enumeration of the sub file entries of \<open>/a\<close> ends as the argument says.
\<close>

definition example_directory :: "string \<Rightarrow> string \<Rightarrow> string file_entry_attributes" where
  "example_directory n p =
     \<lparr>name = n, path_spec = p, IsAllocated = True, IsDevice = False, IsDirectory = True,
      IsFile = False, IsLink = False, IsPipe = False, IsSocket = False\<rparr>"

definition example_file :: "string \<Rightarrow> string \<Rightarrow> string file_entry_attributes" where
  "example_file n p =
     \<lparr>name = n, path_spec = p, IsAllocated = True, IsDevice = False, IsDirectory = False,
      IsFile = True, IsLink = False, IsPipe = False, IsSocket = False\<rparr>"

definition example_tree :: "py_error option \<Rightarrow> string file_entry" where
  "example_tree raises =
     FileEntry (example_directory [] ''/'')
       [FileEntry (example_directory ''a'' ''/a'')
          [FileEntry (example_file ''b'' ''/a/b'') [] None] raises,
        FileEntry (example_file ''c'' ''/c'') [] None]
       None"

subsection \<open>FileSystemSearcher\<close>

text \<open>
  The find specifications are objects that several lists refer to and that \<open>Matches\<close>
  and \<open>Initialize\<close> change in place: the heap maps the address of each to its value, and a
  list of find specifications is a list of addresses. \<open>heap_next\<close> is the first address
  not in use.
\<close>

record 'r heap =
  heap_objects :: "nat \<Rightarrow> 'r FindSpec"
  heap_next :: nat

definition heap_new :: "'r heap \<Rightarrow> 'r FindSpec \<Rightarrow> nat \<times> 'r heap" where
  "heap_new h v =
     (heap_next h,
      h\<lparr>heap_objects := (heap_objects h)(heap_next h := v), heap_next := Suc (heap_next h)\<rparr>)"

definition heap_get :: "'r heap \<Rightarrow> nat \<Rightarrow> 'r FindSpec" where
  "heap_get h a = heap_objects h a"

definition heap_set :: "'r heap \<Rightarrow> nat \<Rightarrow> 'r FindSpec \<Rightarrow> 'r heap" where
  "heap_set h a v = h\<lparr>heap_objects := (heap_objects h)(a := v)\<rparr>"

text \<open>
  A generator is modelled by what its consumer sees when it iterates to the end: the
  values yielded, in order, the exception that ended the iteration (if one did), and the
  heap at that point.
\<close>

type_synonym ('ps, 'r) generated = "'ps list \<times> py_error option \<times> 'r heap"

text \<open>
  The first loop of \<open>_FindInFileEntry\<close>, over \<open>find_specs\<close>: the path specifications
  yielded, the list \<open>sub_find_specs\<close>, the exception raised by \<open>Matches\<close> (if any) and
  the heap.
\<close>

fun find_specs_loop ::
  "'r python \<Rightarrow> 'ps file_entry_attributes \<Rightarrow> int \<Rightarrow> nat list \<Rightarrow> 'r heap
     \<Rightarrow> 'ps list \<times> nat list \<times> py_error option \<times> 'r heap" where
  "find_specs_loop py file_entry search_depth [] h = ([], [], None, h)"
| "find_specs_loop py file_entry search_depth (find_spec # find_specs) h =
     (case Matches py (heap_get h find_spec) file_entry search_depth of
        Inl e \<Rightarrow> ([], [], Some e, h)
      | Inr (matches, self') \<Rightarrow>
          (let h1 = heap_set h find_spec self';
               yielded = (if matches then [path_spec file_entry] else []);
               appended =
                 (if \<not> AtMaximumDepth (heap_get h1 find_spec) search_depth
                  then [find_spec] else []);
               (ys, sub_find_specs, err, h2) =
                 find_specs_loop py file_entry search_depth find_specs h1
           in (yielded @ ys, appended @ sub_find_specs, err, h2)))"

text \<open>
  \<open>FileSystemSearcher._FindInFileEntry(file_entry, find_specs, search_depth)\<close>, and the
  body of its \<open>try\<close>: the loop over \<open>file_entry.sub_file_entries\<close>, which ends with the
  exception of the enumeration when there is one. The handler catches \<open>AccessError\<close>
  and nothing else.
\<close>

fun FindInFileEntry ::
  "'r python \<Rightarrow> 'ps file_entry \<Rightarrow> nat list \<Rightarrow> int \<Rightarrow> 'r heap \<Rightarrow> ('ps, 'r) generated"
and sub_file_entries_loop ::
  "'r python \<Rightarrow> 'ps file_entry list \<Rightarrow> py_error option \<Rightarrow> nat list \<Rightarrow> int \<Rightarrow> 'r heap
     \<Rightarrow> ('ps, 'r) generated" where
  "FindInFileEntry py (FileEntry attrs subs raises) find_specs search_depth h =
     (case find_specs_loop py attrs search_depth find_specs h of
        (ys, sub_find_specs, Some e, h1) \<Rightarrow> (ys, Some e, h1)
      | (ys, sub_find_specs, None, h1) \<Rightarrow>
          if sub_find_specs = [] then (ys, None, h1)
          else
            (case sub_file_entries_loop py subs raises sub_find_specs (search_depth + 1) h1 of
               (zs, Some e, h2) \<Rightarrow>
                 if e = AccessError then (ys @ zs, None, h2) else (ys @ zs, Some e, h2)
             | (zs, None, h2) \<Rightarrow> (ys @ zs, None, h2)))"
| "sub_file_entries_loop py [] raises sub_find_specs search_depth h = ([], raises, h)"
| "sub_file_entries_loop py (sub_file_entry # rest) raises sub_find_specs search_depth h =
     (case FindInFileEntry py sub_file_entry sub_find_specs search_depth h of
        (ys, Some e, h1) \<Rightarrow> (ys, Some e, h1)
      | (ys, None, h1) \<Rightarrow>
          (case sub_file_entries_loop py rest raises sub_find_specs search_depth h1 of
             (zs, err, h2) \<Rightarrow> (ys @ zs, err, h2)))"

text \<open>The searcher object: the file system and the mount point it was built with.\<close>

record 'ps FileSystemSearcher =
  searcher_file_system :: "'ps file_system"
  searcher_mount_point :: 'ps

text \<open>The loop of \<open>Find\<close> that initializes every find specification of the list.\<close>

fun initialize_all :: "'ps file_system \<Rightarrow> nat list \<Rightarrow> 'r heap \<Rightarrow> 'r heap" where
  "initialize_all file_system [] h = h"
| "initialize_all file_system (find_spec # find_specs) h =
     initialize_all file_system find_specs
       (heap_set h find_spec (Initialize file_system (heap_get h find_spec)))"

text \<open>
  \<open>FileSystemSearcher.Find(find_specs)\<close>. The argument is \<open>None\<close> or a list of find
  specifications. \<open>find_specs.append\<close> on \<open>None\<close> raises \<open>AttributeError\<close>. Where the
  back end returns no starting file entry, the first use of it in \<open>_FindInFileEntry\<close> (a
  method call, the name or the sub file entries of \<open>None\<close>) raises \<open>AttributeError\<close>
  before anything is yielded.
\<close>

definition Find ::
  "'r python \<Rightarrow> 'ps FileSystemSearcher \<Rightarrow> nat list option \<Rightarrow> 'r heap
     \<Rightarrow> ('ps, 'r) generated" where
  "Find py self find_specs h =
     (case find_specs of
        None \<Rightarrow> ([], Some AttributeError, h)
      | Some l \<Rightarrow>
          (let (find_specs1, h1) =
                 (if l = []
                  then (let (a, h') = heap_new h FindSpec_default in (l @ [a], h'))
                  else (l, h));
               file_system = searcher_file_system self;
               h2 = initialize_all file_system find_specs1 h1;
               file_entry =
                 (if type_indicator file_system \<in> set PARENTLESS_TYPE_INDICATORS
                  then GetFileEntryByPathSpec file_system (searcher_mount_point self)
                  else GetRootFileEntry file_system)
           in case file_entry of
                None \<Rightarrow> ([], Some AttributeError, h2)
              | Some entry \<Rightarrow> FindInFileEntry py entry find_specs1 0 h2))"


text \<open>
  A searcher for closed examples, over a file system whose root is the example tree and
  whose paths are split at \<open>/\<close>, and a heap with no find specification in use yet.
\<close>

fun split_at :: "char \<Rightarrow> string \<Rightarrow> string list" where
  "split_at sep [] = [[]]"
| "split_at sep (c # cs) =
     (case split_at sep cs of
        w # ws \<Rightarrow> if c = sep then [] # w # ws else (c # w) # ws
      | [] \<Rightarrow> [[c]])"

definition example_SplitPath :: "string \<Rightarrow> string list" where
  "example_SplitPath path = filter (\<lambda>segment. segment \<noteq> []) (split_at CHR ''/'' path)"

definition example_file_system :: "py_error option \<Rightarrow> string file_system" where
  "example_file_system raises =
     \<lparr>type_indicator = TYPE_INDICATOR_OTHER ''TSK'',
      SplitPath = example_SplitPath,
      GetRootFileEntry = Some (example_tree raises),
      GetFileEntryByPathSpec = (\<lambda>p. None)\<rparr>"

definition example_searcher :: "py_error option \<Rightarrow> string FileSystemSearcher" where
  "example_searcher raises =
     \<lparr>searcher_file_system = example_file_system raises, searcher_mount_point = ''/''\<rparr>"

definition empty_heap :: "(string \<times> bool) heap" where
  "empty_heap = \<lparr>heap_objects = (\<lambda>a. FindSpec_default), heap_next = 0\<rparr>"

section \<open>pyvfs/lib/tsk\_partition.py\<close>

text \<open>
  The flags of a volume system part: \<open>pytsk3.TSK_VS_PART_FLAG_ALLOC\<close>, or another value
  of the enumeration.
\<close>

datatype tsk_vs_part_flag = TSK_VS_PART_FLAG_ALLOC | TSK_VS_PART_FLAG_OTHER int

text \<open>
  A volume system part (\<open>pytsk3.TSK_VS_PART_INFO\<close>) and a volume
  (\<open>pytsk3.Volume_Info\<close>), with the attributes the module reads. For the attributes of
  a part, read by \<open>getattr(part, name, None)\<close>, \<open>None\<close> is an attribute that is
  missing or \<open>None\<close>. \<open>info\<close> is \<open>None\<close> for a volume without an \<open>info\<close> attribute or
  with \<open>info\<close> \<open>None\<close>; otherwise it says whether \<open>info\<close> has a \<open>block_size\<close>
  attribute, and its value, which can be \<open>None\<close>.
\<close>

datatype 'a attribute = Missing | Present 'a

record tsk_vs_part =
  flags :: "tsk_vs_part_flag option"
  start :: "int option"
  len :: "int option"

record tsk_volume =
  info :: "int option attribute option"
  parts :: "tsk_vs_part list"

text \<open>The attributes of a path specification that the module reads.\<close>

record tsk_path_spec =
  location :: "string option"
  part_index :: "int option"
  start_offset :: "int option"

text \<open>
  \<open>TSKVolumeGetBytesPerSector\<close>: \<open>getattr(tsk_volume.info, 'block_size', 512)\<close> where
  there is an \<open>info\<close>, else 512. The result is \<open>None\<close> when the attribute is \<open>None\<close>.
\<close>

definition TSKVolumeGetBytesPerSector :: "tsk_volume \<Rightarrow> int option" where
  "TSKVolumeGetBytesPerSector tsk_volume =
     (case info tsk_volume of
        Some (Present b) \<Rightarrow> b
      | Some Missing \<Rightarrow> Some 512
      | None \<Rightarrow> Some 512)"

definition TSKVsPartGetNumberOfSectors :: "tsk_vs_part \<Rightarrow> int option" where
  "TSKVsPartGetNumberOfSectors p = len p"

definition TSKVsPartGetStartSector :: "tsk_vs_part \<Rightarrow> int option" where
  "TSKVsPartGetStartSector p = start p"

definition TSKVsPartIsAllocated :: "tsk_vs_part \<Rightarrow> bool" where
  "TSKVsPartIsAllocated p =
     (flags p \<noteq> None \<and> flags p = Some TSK_VS_PART_FLAG_ALLOC)"

text \<open>
  \<open>int(s, 10)\<close> is a parameter of the model, \<open>int10\<close>: the number that the interpreter
  reads from the string, or \<open>None\<close> where it raises \<open>ValueError\<close>, the exception of
  \<open>int\<close> for a string it cannot read. Which strings it reads depends on the interpreter
  (white space and digits beyond ASCII in text strings, underscores between digits).
\<close>

type_synonym int10 = "string \<Rightarrow> int option"

text \<open>
  The \<open>for\<close> loop of \<open>GetTSKVsPartByPathSpec\<close> over the remaining parts. The state is
  \<open>tsk_vs_part\<close> (the part visited last), \<open>current_part_index\<close> and
  \<open>current_partition_index\<close>; a \<open>break\<close> returns the state at that point.
  \<open>start_sector *= bytes_per_sector\<close> raises \<open>TypeError\<close> when \<open>bytes_per_sector\<close> is
  \<open>None\<close>.
\<close>

fun tsk_vs_part_loop ::
  "int option \<Rightarrow> int option \<Rightarrow> int option \<Rightarrow> int option \<Rightarrow> tsk_vs_part list
     \<Rightarrow> tsk_vs_part option \<times> int \<times> int
     \<Rightarrow> py_error + (tsk_vs_part option \<times> int \<times> int)" where
  "tsk_vs_part_loop partition_index part_idx start_off bytes_per_sector [] st = Inr st"
| "tsk_vs_part_loop partition_index part_idx start_off bytes_per_sector (p # ps)
     (tsk_vs_part, current_part_index, current_partition_index) =
     (if TSKVsPartIsAllocated p \<and> partition_index \<noteq> None
         \<and> partition_index = Some current_partition_index
      then Inr (Some p, current_part_index, current_partition_index)
      else
        let current_partition_index' =
              (if TSKVsPartIsAllocated p then current_partition_index + 1
               else current_partition_index)
        in if part_idx \<noteq> None \<and> part_idx = Some current_part_index
           then Inr (Some p, current_part_index, current_partition_index')
           else
             case (case start_off of
                     None \<Rightarrow> Inr False
                   | Some off \<Rightarrow>
                       (case TSKVsPartGetStartSector p of
                          None \<Rightarrow> Inr False
                        | Some start_sector \<Rightarrow>
                            (case bytes_per_sector of
                               None \<Rightarrow> Inl TypeError
                             | Some b \<Rightarrow> Inr (start_sector * b = off)))) of
               Inl e \<Rightarrow> Inl e
             | Inr found \<Rightarrow>
                 if found then Inr (Some p, current_part_index, current_partition_index')
                 else tsk_vs_part_loop partition_index part_idx start_off bytes_per_sector ps
                        (Some p, current_part_index + 1, current_partition_index'))"

text \<open>
  \<open>GetTSKVsPartByPathSpec(tsk_volume, path_spec)\<close>: the pair of the volume system part
  and the partition index, each \<open>None\<close> or a value, or the exception raised.
\<close>

definition GetTSKVsPartByPathSpec ::
  "int10 \<Rightarrow> tsk_volume \<Rightarrow> tsk_path_spec
     \<Rightarrow> py_error + (tsk_vs_part option \<times> int option)" where
  "GetTSKVsPartByPathSpec int10 volume pspec =
     (let location0 = location pspec;
          part_idx = part_index pspec;
          start_off = start_offset pspec;
          partition_index =
            (if part_idx = None then
               (case location0 of
                  None \<Rightarrow> None
                | Some l \<Rightarrow>
                    if startswith l ''/p'' then
                      (case int10 (slice_from l 2) of
                         None \<Rightarrow> None
                       | Some v \<Rightarrow> Some (v - 1))
                    else None)
             else None);
          location1 =
            (if part_idx = None \<and> location0 \<noteq> None \<and>
                (case partition_index of None \<Rightarrow> True | Some i \<Rightarrow> i < 0)
             then None else location0)
      in if part_idx = None \<and> location1 = None \<and> start_off = None then Inr (None, None)
         else
           let bytes_per_sector = TSKVolumeGetBytesPerSector volume;
               tsk_vs_part_list = parts volume;
               number_of_tsk_vs_parts = int (length tsk_vs_part_list)
           in if number_of_tsk_vs_parts > 0 \<and>
                 (case part_idx of
                    None \<Rightarrow> False
                  | Some i \<Rightarrow> i < 0 \<or> i \<ge> number_of_tsk_vs_parts)
              then Inr (None, None)
              else
                case (if number_of_tsk_vs_parts > 0
                      then tsk_vs_part_loop partition_index part_idx start_off
                             bytes_per_sector tsk_vs_part_list (None, 0, 0)
                      else Inr (None, 0, 0)) of
                  Inl e \<Rightarrow> Inl e
                | Inr (tsk_vs_part, current_part_index, current_partition_index) \<Rightarrow>
                    (case tsk_vs_part of
                       None \<Rightarrow> Inr (None, None)
                     | Some p \<Rightarrow>
                         if current_part_index \<ge> number_of_tsk_vs_parts
                         then Inr (None, None)
                         else Inr (Some p,
                                   if \<not> TSKVsPartIsAllocated p then None
                                   else Some current_partition_index)))"

text \<open>
  An \<open>int10\<close> for closed examples, which reads what \<open>int(s, 10)\<close> reads from a string
  of ASCII characters without underscores: white space around the number is dropped, a
  sign may come first, and one or more decimal digits must follow.
\<close>

definition is_space :: "char \<Rightarrow> bool" where
  "is_space c = (c \<in> set [CHR '' '', CHR 0x09, CHR 0x0A, CHR 0x0B, CHR 0x0C, CHR 0x0D])"

definition strip :: "string \<Rightarrow> string" where
  "strip s = rev (dropWhile is_space (rev (dropWhile is_space s)))"

definition digit_value :: "char \<Rightarrow> int option" where
  "digit_value c = map_of (zip ''0123456789'' [0, 1, 2, 3, 4, 5, 6, 7, 8, 9]) c"

fun digits_value :: "int \<Rightarrow> string \<Rightarrow> int option" where
  "digits_value acc [] = Some acc"
| "digits_value acc (c # cs) =
     (case digit_value c of
        None \<Rightarrow> None
      | Some d \<Rightarrow> digits_value (10 * acc + d) cs)"

definition example_int10 :: int10 where
  "example_int10 s =
     (let t = strip s;
          (sign, ds) =
            (case t of
               c # cs \<Rightarrow>
                 if c = CHR ''-'' then (- 1, cs)
                 else if c = CHR ''+'' then (1, cs)
                 else (1, t)
             | [] \<Rightarrow> (1, t))
      in if ds = [] then None
         else case digits_value 0 ds of
                None \<Rightarrow> None
              | Some v \<Rightarrow> Some (sign * v))"

text \<open>A volume for closed examples: an unallocated part, then an allocated one.\<close>

definition example_volume :: tsk_volume where
  "example_volume =
     \<lparr>info = None,
      parts = [\<lparr>flags = Some (TSK_VS_PART_FLAG_OTHER 2), start = Some 0, len = Some 2048\<rparr>,
               \<lparr>flags = Some TSK_VS_PART_FLAG_ALLOC, start = Some 2048, len = Some 4096\<rparr>]\<rparr>"


section \<open>Properties of the AES decrypter\<close>

text \<open>
  \<open>Decrypt\<close> for a positive block size \<open>b\<close>: the input is cut at the last multiple of
  \<open>b\<close>, the front goes through \<open>update\<close>, and the rest is handed back.
\<close>

lemma Decrypt_nat:
  assumes "block_size lib (algorithm self) = int b" "0 < b"
  shows "Decrypt lib self xs =
     Inr ((fst (update lib (cipher_context self) (take (length xs - length xs mod b) xs)),
           drop (length xs - length xs mod b) xs),
          self\<lparr>cipher_context :=
            snd (update lib (cipher_context self) (take (length xs - length xs mod b) xs))\<rparr>)"
proof -
  let ?n = "length xs" and ?r = "length xs mod b"
  have m: "int ?n mod int b = int ?r" by (simp add: zmod_int)
  have le: "?r \<le> ?n" by (rule mod_less_eq_dividend)
  show ?thesis
  proof (cases "?r = 0")
    case True
    then show ?thesis using assms m
      by (simp add: Decrypt_def Let_def split: prod.splits)
  next
    case False
    have b: "slice_bound xs (- int ?r) = ?n - ?r"
      using False le by (simp add: slice_bound_def Let_def)
    show ?thesis using assms m False b
      by (simp add: Decrypt_def Let_def slice_from_def slice_upto_def split: prod.splits)
  qed
qed

text \<open>
  For every decrypter whose cipher block size is positive and every input, \<open>Decrypt\<close>
  returns the pair of the decrypted data and the remaining encrypted data, where the
  remaining data are the last \<open>len % block_size\<close> bytes of the input and the decrypted
  data are what the cipher context returns for the bytes before them; the remaining data
  are empty exactly when the length of the input is a multiple of the block size.
\<close>

lemma Decrypt_leftover:
  assumes "0 < block_size lib (algorithm self)"
  shows "let bs = block_size lib (algorithm self);
             n = length encrypted_data;
             r = nat (int n mod bs);
             (decrypted, ctx') = update lib (cipher_context self) (take (n - r) encrypted_data)
         in Decrypt lib self encrypted_data =
              Inr ((decrypted, drop (n - r) encrypted_data), self\<lparr>cipher_context := ctx'\<rparr>)
            \<and> length (drop (n - r) encrypted_data) = r
            \<and> (drop (n - r) encrypted_data = []) = (bs dvd int n)"
proof -
  obtain b where b: "block_size lib (algorithm self) = int b" "0 < b"
    using assms by (metis zero_less_imp_eq_int)
  define n where "n = length encrypted_data"
  have r: "nat (int n mod int b) = n mod b"
    by (simp add: zmod_int[symmetric])
  have le: "n mod b \<le> n"
    by (rule mod_less_eq_dividend)
  have d: "(n mod b = 0) = (b dvd n)"
    by (rule mod_eq_0_iff_dvd)
  have e: "(n \<le> n - n mod b) = (n mod b = 0)"
    using le by arith
  show ?thesis
    using Decrypt_nat[OF b, of encrypted_data] le e
    by (simp add: Let_def b r d n_def[symmetric] split: prod.splits)
qed

text \<open>
  Claim C3 says that \<open>Decrypt\<close> cuts its input at the multiples of the AES block size
  of 16 bytes, handing back \<open>len % 16\<close> bytes. The source takes the remainder by
  \<open>self._algorithm.block_size\<close>, which the cipher library gives in bits, 128: for every
  decrypter with that block size and every input shorter than 128 bytes, the whole input
  is handed back as remaining data and the cipher context is given nothing to decrypt.
\<close>

theorem Decrypt_block_size_in_bits:
  assumes "block_size lib (algorithm self) = 128" and "length encrypted_data < 128"
  shows "Decrypt lib self encrypted_data =
           Inr ((fst (update lib (cipher_context self) []), encrypted_data),
                self\<lparr>cipher_context := snd (update lib (cipher_context self) [])\<rparr>)"
proof -
  have b: "block_size lib (algorithm self) = int 128" "0 < (128::nat)"
    using assms(1) by simp_all
  have "length encrypted_data mod 128 = length encrypted_data"
    using assms(2) by simp
  then show ?thesis
    using Decrypt_nat[OF b, of encrypted_data] by simp
qed

text \<open>
  The example library, whose block size is that of the cipher library, on a block of 16
  bytes and on the 23 bytes of the partial decryption of the repository's test, which
  expects 16 decrypted bytes and 7 remaining ones: both inputs come back whole, with no
  decrypted data.
\<close>

theorem Decrypt_block_size_in_bits_witness:
  "block_size example_library (algorithm example_decrypter) = 128
   \<and> Decrypt example_library example_decrypter ''0123456789abcdef'' =
       Inr (([], ''0123456789abcdef''), example_decrypter)
   \<and> Decrypt example_library example_decrypter ''0123456789abcdefghijklm'' =
       Inr (([], ''0123456789abcdefghijklm''), example_decrypter)"
proof -
  have b: "block_size example_library (algorithm example_decrypter) = 128"
    by (simp add: example_library_def)
  have u: "update example_library (cipher_context example_decrypter) [] =
      ([], cipher_context example_decrypter)"
    by (simp add: example_library_def)
  show ?thesis
    using Decrypt_block_size_in_bits[OF b, of "''0123456789abcdef''"]
      Decrypt_block_size_in_bits[OF b, of "''0123456789abcdefghijklm''"] b u
    by simp
qed

text \<open>
  The example library's \<open>update\<close> is a stream: feeding two pieces one after the other
  gives what feeding them at once gives.
\<close>

lemma example_update_append:
  "example_update p (a @ b) =
     (let (pa, c1) = example_update p a; (pb, c2) = example_update c1 b in (pa @ pb, c2))"
  by (induction a arbitrary: p) (auto simp: Let_def split: prod.splits)

text \<open>
  The arithmetic of a split: when a buffer \<open>A @ B\<close> is cut at the last block boundary,
  the front is the front of \<open>A\<close> up to its own last block boundary, followed by the
  front of (the rest of \<open>A\<close>, then \<open>B\<close>) up to its last block boundary.
\<close>

lemma blocks_of_split:
  fixes A B :: "'a list" and b :: nat
  assumes ka: "ka = length A - length A mod b"
    and X2: "X2 = drop ka A @ B"
    and k2: "k2 = length X2 - length X2 mod b"
    and k: "k = length (A @ B) - length (A @ B) mod b"
  shows "take k (A @ B) = take ka A @ take k2 X2"
    and "drop k (A @ B) = drop k2 X2"
    and "b dvd length (take ka A)"
    and "b dvd length (take k2 X2)"
proof -
  have lea: "length A mod b \<le> length A" by (rule mod_less_eq_dividend)
  have lena1: "length (take ka A) = ka" by (simp add: ka)
  have lenX2: "length X2 = length A mod b + length B"
    using lea by (simp add: X2 ka)
  have lenX: "length (A @ B) = ka + length X2"
    using lea by (simp add: lenX2 ka)
  have "b dvd ka" unfolding ka by (rule dvd_minus_mod)
  then have "(ka + length X2) mod b = length X2 mod b"
    by (metis mod_add_left_eq dvd_eq_mod_eq_0 add_0 mod_mod_trivial)
  then have modeq: "length (A @ B) mod b = length X2 mod b"
    using lenX by simp
  have le2: "length X2 mod b \<le> length X2" by (rule mod_less_eq_dividend)
  have kk: "k = ka + k2"
    using modeq lenX le2 by (simp add: k k2)
  have X: "A @ B = take ka A @ X2" by (simp add: X2)
  show "take k (A @ B) = take ka A @ take k2 X2"
    unfolding X kk using lena1 by simp
  show "drop k (A @ B) = drop k2 X2"
    unfolding X kk using lena1 by simp
  show "b dvd length (take ka A)"
    unfolding lena1 by fact
  have "k2 \<le> length X2" by (simp add: k2)
  then have "length (take k2 X2) = k2" by simp
  then show "b dvd length (take k2 X2)"
    unfolding k2 by (simp add: dvd_minus_mod)
qed

text \<open>
  Claim C5. For every decrypter with a positive block size whose cipher context is a
  stream over whole blocks (the library's \<open>update\<close> on two block-aligned pieces in turn
  returns what it returns on their concatenation), and every buffer split at any point
  into \<open>first_part\<close> and \<open>second_part\<close>: \<open>Decrypt\<close> of the first part, then \<open>Decrypt\<close> of
  the leftover followed by the second part, both return, and their decrypted data
  concatenated, the last leftover and the final state are those of one \<open>Decrypt\<close> of the
  whole buffer from the same starting state.
\<close>

theorem Decrypt_split_round_trip:
  assumes bs: "0 < block_size lib (algorithm self)"
    and stream: "\<And>ctx a b. block_size lib (algorithm self) dvd int (length a) \<Longrightarrow>
        block_size lib (algorithm self) dvd int (length b) \<Longrightarrow>
        update lib ctx (a @ b) =
          (let (pa, c1) = update lib ctx a; (pb, c2) = update lib c1 b in (pa @ pb, c2))"
  shows "\<exists>p1 l1 d1 p2 l2 d2.
           Decrypt lib self first_part = Inr ((p1, l1), d1) \<and>
           Decrypt lib d1 (l1 @ second_part) = Inr ((p2, l2), d2) \<and>
           Decrypt lib self (first_part @ second_part) = Inr ((p1 @ p2, l2), d2)"
proof -
  obtain b where b: "block_size lib (algorithm self) = int b" "0 < b"
    using bs by (metis zero_less_imp_eq_int)
  define ka where "ka = length first_part - length first_part mod b"
  define l1 where "l1 = drop ka first_part"
  define a1 where "a1 = take ka first_part"
  define u1 where "u1 = update lib (cipher_context self) a1"
  define d1 where "d1 = self\<lparr>cipher_context := snd u1\<rparr>"
  define X2 where "X2 = l1 @ second_part"
  define k2 where "k2 = length X2 - length X2 mod b"
  define a2 where "a2 = take k2 X2"
  define u2 where "u2 = update lib (snd u1) a2"
  define d2 where "d2 = d1\<lparr>cipher_context := snd u2\<rparr>"
  define X where "X = first_part @ second_part"
  define k where "k = length X - length X mod b"
  have first: "Decrypt lib self first_part = Inr ((fst u1, l1), d1)"
    unfolding u1_def l1_def d1_def a1_def ka_def by (rule Decrypt_nat[OF b])
  have b1: "block_size lib (algorithm d1) = int b" using b by (simp add: d1_def)
  have second: "Decrypt lib d1 X2 = Inr ((fst u2, drop k2 X2), d2)"
    using Decrypt_nat[OF b1 b(2), of X2]
    by (simp add: u2_def d2_def a2_def k2_def d1_def)
  have whole: "Decrypt lib self X =
      Inr ((fst (update lib (cipher_context self) (take k X)), drop k X),
           self\<lparr>cipher_context := snd (update lib (cipher_context self) (take k X))\<rparr>)"
    unfolding k_def by (rule Decrypt_nat[OF b])
  have X2': "X2 = drop ka first_part @ second_part" by (simp add: X2_def l1_def)
  have k': "k = length (first_part @ second_part) - length (first_part @ second_part) mod b"
    by (simp add: k_def X_def)
  note bl = blocks_of_split[OF ka_def X2' k2_def k']
  have tk: "take k X = a1 @ a2" and dk: "drop k X = drop k2 X2"
    and da1: "b dvd length a1" and da2: "b dvd length a2"
    using bl by (simp_all only: a1_def a2_def X_def)
  have "update lib (cipher_context self) (a1 @ a2) = (fst u1 @ fst u2, snd u2)"
    using stream[of a1 a2 "cipher_context self"] da1 da2 b
    by (simp add: Let_def u1_def u2_def split: prod.splits)
  then have "Decrypt lib self X = Inr ((fst u1 @ fst u2, drop k2 X2), d2)"
    using whole tk dk by (simp add: d2_def d1_def)
  with first second show ?thesis unfolding X_def X2_def by blast
qed

text \<open>
  The example library on a buffer of 256 bytes split after 130: the first call hands
  back two bytes, and the two calls together agree with the single call.
\<close>

theorem Decrypt_split_round_trip_witness:
  "0 < block_size example_library (algorithm example_decrypter)
   \<and> (\<exists>p1 l1 d1 p2 l2 d2.
         Decrypt example_library example_decrypter (replicate 130 CHR ''a'') =
           Inr ((p1, l1), d1) \<and>
         l1 = replicate 2 CHR ''a'' \<and>
         Decrypt example_library d1 (l1 @ replicate 126 CHR ''b'') = Inr ((p2, l2), d2) \<and>
         Decrypt example_library example_decrypter
             (replicate 130 CHR ''a'' @ replicate 126 CHR ''b'') =
           Inr ((p1 @ p2, l2), d2))"
proof -
  have bs: "0 < block_size example_library (algorithm example_decrypter)"
    by (simp add: example_library_def)
  have stream: "\<And>ctx a b. update example_library ctx (a @ b) =
      (let (pa, c1) = update example_library ctx a; (pb, c2) = update example_library c1 b
       in (pa @ pb, c2))"
    by (simp add: example_library_def example_update_append)
  obtain p1 l1 d1 p2 l2 d2 where
    r: "Decrypt example_library example_decrypter (replicate 130 CHR ''a'') = Inr ((p1, l1), d1)"
       "Decrypt example_library d1 (l1 @ replicate 126 CHR ''b'') = Inr ((p2, l2), d2)"
       "Decrypt example_library example_decrypter
            (replicate 130 CHR ''a'' @ replicate 126 CHR ''b'') =
           Inr ((p1 @ p2, l2), d2)"
    using Decrypt_split_round_trip[OF bs stream, of "replicate 130 CHR ''a''"
        "replicate 126 CHR ''b''"]
    by blast
  have b: "block_size example_library (algorithm example_decrypter) = int 128" "0 < (128::nat)"
    by (simp_all add: example_library_def)
  have "l1 = replicate 2 CHR ''a''"
    using r(1) Decrypt_nat[OF b, of "replicate 130 CHR ''a''"] by simp
  with bs r show ?thesis by blast
qed

text \<open>
  Claim C9, as amended. Construction fails with \<open>ValueError\<close> when the key is missing,
  when the cipher mode is not one of the four supported modes, or when the mode is not
  ECB and no initialization vector is supplied. It fails exactly when one of these three
  holds or the cipher library raises while the algorithm or the cipher context is built
  from the key, the mode and the initialization vector. Construction with ECB mode, a
  key the library accepts and no initialization vector succeeds.
\<close>

theorem AESDecrypter_init_fails_iff:
  "(py_not key \<or> unsupported_mode cipher_mode \<or>
      (cipher_mode \<noteq> Some ENCRYPTION_MODE_ECB \<and> py_not initialization_vector)
     \<longrightarrow> AESDecrypter_init lib cipher_mode initialization_vector key = Inl ValueError)
   \<and> ((\<exists>e. AESDecrypter_init lib cipher_mode initialization_vector key = Inl e) \<longleftrightarrow>
        py_not key \<or> unsupported_mode cipher_mode \<or>
        (cipher_mode \<noteq> Some ENCRYPTION_MODE_ECB \<and> py_not initialization_vector) \<or>
        (\<exists>k e. key = Some k \<and> algorithms_AES lib k = Inl e) \<or>
        (\<exists>k alg e. key = Some k \<and> algorithms_AES lib k = Inr alg \<and>
           decryptor lib alg (mode_object cipher_mode initialization_vector) = Inl e))
   \<and> (key = Some k \<and> k \<noteq> [] \<and> algorithms_AES lib k = Inr alg \<and> decryptor lib alg ECB = Inr ctx
        \<longrightarrow> AESDecrypter_init lib (Some ENCRYPTION_MODE_ECB) None key =
              Inr \<lparr>algorithm = alg, cipher_context = ctx\<rparr>)"
proof (intro conjI)
  show "py_not key \<or> unsupported_mode cipher_mode \<or>
      (cipher_mode \<noteq> Some ENCRYPTION_MODE_ECB \<and> py_not initialization_vector)
     \<longrightarrow> AESDecrypter_init lib cipher_mode initialization_vector key = Inl ValueError"
    by (simp add: AESDecrypter_init_def)
next
  show "(\<exists>e. AESDecrypter_init lib cipher_mode initialization_vector key = Inl e) \<longleftrightarrow>
        py_not key \<or> unsupported_mode cipher_mode \<or>
        (cipher_mode \<noteq> Some ENCRYPTION_MODE_ECB \<and> py_not initialization_vector) \<or>
        (\<exists>k e. key = Some k \<and> algorithms_AES lib k = Inl e) \<or>
        (\<exists>k alg e. key = Some k \<and> algorithms_AES lib k = Inr alg \<and>
           decryptor lib alg (mode_object cipher_mode initialization_vector) = Inl e)"
  proof (cases "py_not key \<or> unsupported_mode cipher_mode \<or>
        (cipher_mode \<noteq> Some ENCRYPTION_MODE_ECB \<and> py_not initialization_vector)")
    case True
    then show ?thesis by (auto simp: AESDecrypter_init_def)
  next
    case False
    then obtain k where k: "key = Some k" by (auto simp: py_not_def)
    show ?thesis using False k
      by (auto simp: AESDecrypter_init_def Let_def split: sum.splits)
  qed
next
  show "key = Some k \<and> k \<noteq> [] \<and> algorithms_AES lib k = Inr alg \<and> decryptor lib alg ECB = Inr ctx
        \<longrightarrow> AESDecrypter_init lib (Some ENCRYPTION_MODE_ECB) None key =
              Inr \<lparr>algorithm = alg, cipher_context = ctx\<rparr>"
    by (simp add: AESDecrypter_init_def py_not_def unsupported_mode_def ENCRYPTION_MODES_def
          mode_object_def)
qed

text \<open>
  The constructor over the example library, on the calls of the repository's test of the
  constructor: no argument, an unknown mode, CBC without a vector, ECB without a
  vector, and CBC with a vector of the wrong size.
\<close>

theorem AESDecrypter_init_fails_iff_witness:
  "AESDecrypter_init example_library None None None = Inl ValueError
   \<and> AESDecrypter_init example_library (Some (OTHER_MODE ''bogus'')) None
        (Some ''This is a key123'') = Inl ValueError
   \<and> AESDecrypter_init example_library (Some ENCRYPTION_MODE_CBC) None
        (Some ''This is a key123'') = Inl ValueError
   \<and> AESDecrypter_init example_library (Some ENCRYPTION_MODE_ECB) None
        (Some ''This is a key123'') = Inr \<lparr>algorithm = 16, cipher_context = 0\<rparr>
   \<and> AESDecrypter_init example_library (Some ENCRYPTION_MODE_CBC) (Some ''Wrong IV size'')
        (Some ''This is a key123'') = Inl ValueError"
proof -
  have a: "py_not None" by (simp add: py_not_def)
  have b: "unsupported_mode (Some (OTHER_MODE ''bogus''))"
    by (simp add: unsupported_mode_def ENCRYPTION_MODES_def)
  have c: "algorithms_AES example_library ''This is a key123'' = Inr 16"
    "decryptor example_library 16 ECB = Inr 0"
    "decryptor example_library 16 (mode_object (Some ENCRYPTION_MODE_CBC) (Some ''Wrong IV size''))
       = Inl ValueError"
    by (simp_all add: example_library_def mode_object_def iv_accepted_def)
  have d: "AESDecrypter_init example_library (Some ENCRYPTION_MODE_CBC) (Some ''Wrong IV size'')
        (Some ''This is a key123'') = Inl ValueError"
    by (simp add: AESDecrypter_init_def py_not_def unsupported_mode_def ENCRYPTION_MODES_def
          mode_object_def example_library_def iv_accepted_def)
  show ?thesis
    using AESDecrypter_init_fails_iff[of None None None example_library]
      AESDecrypter_init_fails_iff[of "Some ''This is a key123''" "Some (OTHER_MODE ''bogus'')" None
        example_library]
      AESDecrypter_init_fails_iff[of "Some ''This is a key123''" "Some ENCRYPTION_MODE_CBC" None
        example_library "''This is a key123''" 16 0]
      a b c d
    by simp
qed

text \<open>
  Against claim C9 as first stated: with the example library, which rejects a key of 14
  bytes as the repository's test expects of the real one, construction in ECB mode with
  the key \<open>Wrong key size\<close> fails with \<open>ValueError\<close> although the key is not missing and
  the mode is ECB, a supported mode.
\<close>

theorem AESDecrypter_init_wrong_key_size:
  "AESDecrypter_init example_library (Some ENCRYPTION_MODE_ECB) None (Some ''Wrong key size'')
     = Inl ValueError
   \<and> \<not> py_not (Some ''Wrong key size'')
   \<and> \<not> unsupported_mode (Some ENCRYPTION_MODE_ECB)"
  by (simp add: AESDecrypter_init_def py_not_def unsupported_mode_def ENCRYPTION_MODES_def
        mode_object_def example_library_def)


section \<open>Properties of FindSpec\<close>

subsection \<open>The state of a find specification\<close>

lemma get_item_in_range:
  "0 < d \<Longrightarrow> d \<le> int (length xs) \<Longrightarrow> get_item xs (d - 1) = Inr (xs ! nat (d - 1))"
  by (simp add: get_item_def position_def)

lemma set_item_length: "length (set_item xs i v) = length xs"
  by (simp add: set_item_def split: option.splits)

lemma set_item_is_Str:
  "list_all is_Str xs \<Longrightarrow> list_all is_Str (set_item xs i (Str s))"
  by (auto simp: set_item_def list_all_iff is_Str_def split: option.splits
      dest!: set_update_subset_insert[THEN subsetD])


lemma segment_name_at_keeps:
  assumes "segment_name_at py self segments d = Inr (Some (seg, self'))"
    "spec_location_segments self = Some segments" "FindSpec_ok self"
  shows "FindSpec_ok self'
    \<and> spec_number_of_location_segments self' = spec_number_of_location_segments self
    \<and> spec_is_regex self' = spec_is_regex self
    \<and> spec_is_case_sensitive self' = spec_is_case_sensitive self
    \<and> spec_file_entry_types self' = spec_file_entry_types self
    \<and> spec_is_allocated self' = spec_is_allocated self
    \<and> spec_location_segments self' \<noteq> None
    \<and> (d > 0 \<and> spec_is_regex self = Some True \<longrightarrow> (\<exists>r. seg = Pattern r))"
  using assms
  by (auto simp: segment_name_at_def Let_def FindSpec_ok_def set_item_length set_item_is_Str
      split: if_splits sum.splits segment.splits option.splits)




lemma Matches_keeps_ok:
  assumes "FindSpec_ok self" "Matches py self e d = Inr (b, self')"
  shows "FindSpec_ok self'"
proof (cases "spec_location_segments self")
  case None
  then show ?thesis using assms by (simp add: Matches_def)
next
  case (Some segments)
  show ?thesis
  proof (cases "d < 0 \<or> d > int (spec_number_of_location_segments self)")
    case True
    then show ?thesis using Some assms by (auto simp: Matches_def)
  next
    case False
    show ?thesis
    proof (cases "segment_name_at py self segments d")
      case (Inl x)
      then show ?thesis using Some False assms by (simp add: Matches_def)
    next
      case (Inr r)
      show ?thesis
      proof (cases r)
        case None
        then show ?thesis using Some False Inr assms by (auto simp: Matches_def)
      next
        case (Some p)
        obtain seg s1 where p: "p = (seg, s1)" by (cases p)
        note k = segment_name_at_keeps[OF Inr[unfolded Some p] \<open>spec_location_segments self = _\<close> assms(1)]
        have "self' = s1"
          using assms(2) \<open>spec_location_segments self = _\<close> False Inr Some p
          by (auto simp: Matches_def split: sum.splits if_splits)
        then show ?thesis using k by simp
      qed
    qed
  qed
qed

lemma FindSpec_ok_Initialize:
  assumes "FindSpec_init file_entry_types is_allocated loc loc_regex case_sensitive = Inr self"
  shows "FindSpec_ok (Initialize file_system self)"
  using assms
  by (auto simp: FindSpec_init_def Initialize_def FindSpec_ok_def Let_def list_all_iff is_Str_def
      split: if_splits option.splits location_argument.splits)

text \<open>
  A find specification built with a location or a location regular expression has its
  location segments set once \<open>Initialize\<close> has run.
\<close>

lemma Initialize_sets_segments:
  assumes "FindSpec_init file_entry_types is_allocated loc loc_regex case_sensitive = Inr self"
    and "loc \<noteq> None \<or> loc_regex \<noteq> None"
  shows "spec_location_segments (Initialize file_system self) \<noteq> None"
  using assms
  by (auto simp: FindSpec_init_def Initialize_def Let_def
      split: if_splits option.splits location_argument.splits)

lemma FindSpec_init_location_list:
  "FindSpec_init None (Some True) (Some (LocationList segments)) None case_sensitive =
     Inr (location_spec segments False case_sensitive)"
  "FindSpec_init None (Some True) None (Some (LocationList segments)) case_sensitive =
     Inr (location_spec segments True case_sensitive)"
  by (simp_all add: FindSpec_init_def location_spec_def)

lemma FindSpec_init_no_preference:
  "FindSpec_init None None None None True = Inr no_preference_spec"
  by (simp add: FindSpec_init_def no_preference_spec_def)

lemma FindSpec_init_default:
  "FindSpec_init None (Some True) None None True = Inr FindSpec_default"
  by (simp add: FindSpec_init_def FindSpec_default_def)

lemma Initialize_location_spec:
  "Initialize file_system (location_spec segments regex case_sensitive) =
     (location_spec segments regex case_sensitive)
       \<lparr>spec_number_of_location_segments := length segments\<rparr>"
  by (simp add: Initialize_def location_spec_def)


subsection \<open>The location check\<close>




text \<open>
  Claim C6. For every find specification and every integer search depth,
  \<open>AtMaximumDepth\<close> returns true if and only if the location segments are set and the
  depth equals the number of location segments; with no location segments it returns
  false at every depth. Once \<open>Initialize\<close> has run, the number of location segments is
  the length of the list of segments.
\<close>

theorem AtMaximumDepth_iff:
  "(AtMaximumDepth self search_depth \<longleftrightarrow>
      spec_location_segments self \<noteq> None \<and>
      search_depth = int (spec_number_of_location_segments self))
   \<and> (spec_location_segments self = None \<longrightarrow> \<not> AtMaximumDepth self search_depth)
   \<and> (FindSpec_ok self \<longrightarrow>
        (AtMaximumDepth self search_depth \<longleftrightarrow>
           (\<exists>segments. spec_location_segments self = Some segments \<and>
              search_depth = int (length segments))))"
  by (auto simp: AtMaximumDepth_def FindSpec_ok_def split: option.splits)

text \<open>
  The find specification of the location \<open>a/b\<close> is at its maximum depth at depth 2 and
  not at depth 1; the default find specification never is.
\<close>

theorem AtMaximumDepth_iff_witness:
  "AtMaximumDepth (Initialize (example_file_system None)
       (location_spec [''a'', ''b''] False False) :: (string \<times> bool) FindSpec) 2
   \<and> \<not> AtMaximumDepth (Initialize (example_file_system None)
       (location_spec [''a'', ''b''] False False) :: (string \<times> bool) FindSpec) 1
   \<and> \<not> AtMaximumDepth (Initialize (example_file_system None)
       (FindSpec_default :: (string \<times> bool) FindSpec)) 0"
proof -
  let ?s = "Initialize (example_file_system None)
       (location_spec [''a'', ''b''] False False) :: (string \<times> bool) FindSpec"
  let ?d = "Initialize (example_file_system None) (FindSpec_default :: (string \<times> bool) FindSpec)"
  have s: "spec_location_segments ?s = Some [Str ''a'', Str ''b'']"
    "spec_number_of_location_segments ?s = 2"
    by (simp_all add: Initialize_location_spec) (simp_all add: location_spec_def)
  have d: "spec_location_segments ?d = None"
    by (simp add: Initialize_def FindSpec_default_def)
  show ?thesis
    using AtMaximumDepth_iff[of ?s 2] AtMaximumDepth_iff[of ?s 1] AtMaximumDepth_iff[of ?d 0] s d
    by simp
qed

lemma heap_set_get: "heap_set h a (heap_get h a) = h"
  by (simp add: heap_set_def heap_get_def)

text \<open>
  The last segment decides at the depth of the number of segments: when it compiles and
  the compiled pattern matches the name of a file entry that passes the type and
  allocation checks, \<open>Matches\<close> returns true, whatever the other segments are.
\<close>

lemma Matches_last_segment:
  assumes ok: "FindSpec_ok self" and regex: "spec_is_regex self = Some True"
    and segs: "spec_location_segments self = Some segments" and ne: "segments \<noteq> []"
    and last: "segments ! (length segments - 1) = Str t"
    and comp: "re_compile py (''^'' @ t @ ''$'') (compile_flags self) = Inr r"
    and m: "re_match py r (name file_entry)"
    and ty: "CheckFileEntryType self file_entry" and al: "CheckIsAllocated self file_entry"
  shows "\<exists>self'. Matches py self file_entry (int (length segments)) = Inr (True, self')"
proof -
  let ?d = "int (length segments)"
  have n: "spec_number_of_location_segments self = length segments"
    using ok segs by (simp add: FindSpec_ok_def)
  have pos: "0 < ?d" using ne by simp
  have idx: "nat (?d - 1) = length segments - 1" by simp
  have g: "get_item segments (?d - 1) = Inr (Str t)"
    using get_item_in_range[OF pos, of segments] last idx by simp
  let ?s1 = "self\<lparr>spec_location_segments :=
               Some (set_item segments (?d - 1) (Pattern r))\<rparr>"
  have at: "segment_name_at py self segments ?d = Inr (Some (Pattern r, ?s1))"
    using pos g regex comp by (simp add: segment_name_at_def)
  have sm: "segment_name_matches py ?s1 (Pattern r) (name file_entry) ?d = Inr True"
    using pos regex m by (simp add: segment_name_matches_def)
  have ty1: "CheckFileEntryType ?s1 file_entry"
    using ty by (simp add: CheckFileEntryType_def CheckIs_def)
  have al1: "CheckIsAllocated ?s1 file_entry"
    using al by (simp add: CheckIsAllocated_def)
  have "Matches py self file_entry ?d = Inr (True, ?s1)"
    using segs n at sm ty1 al1 by (simp add: Matches_def)
  then show ?thesis by blast
qed

text \<open>
  Claim C7, as amended. For every find specification of regular expressions, in the state
  that \<open>Initialize\<close> establishes, and every segment of it that is a string which
  \<open>re.compile\<close> rejects with \<open>sre_constants.error\<close>: at the search depth of that
  segment \<open>Matches\<close> returns false for every file entry, raises nothing and leaves the
  find specification as it was; the loop of \<open>_FindInFileEntry\<close> over the find
  specifications goes on after it as if this one were not in the list, except that it is
  kept for the next depth unless it is at its maximum depth. The find specification can
  still match at another depth: when the rejected segment is not the last one, an entry at
  the depth of the number of segments matches as soon as the last segment compiles and
  matches its name and the type and allocation checks pass.
\<close>

theorem Matches_malformed_segment:
  assumes "FindSpec_ok self" and "spec_is_regex self = Some True"
    and "spec_location_segments self = Some segments"
    and "0 < search_depth" and "search_depth \<le> int (length segments)"
    and "segments ! nat (search_depth - 1) = Str s"
    and "re_compile py (''^'' @ s @ ''$'') (compile_flags self) = Inl sre_constants_error"
  shows "Matches py self file_entry search_depth = Inr (False, self)
    \<and> (heap_get h a = self \<longrightarrow>
         find_specs_loop py file_entry search_depth (a # rest) h =
           (case find_specs_loop py file_entry search_depth rest h of
              (ys, sub_find_specs, err, h') \<Rightarrow>
                (ys, (if AtMaximumDepth self search_depth then [] else [a]) @ sub_find_specs,
                 err, h')))
    \<and> (search_depth < int (length segments) \<and>
        segments ! (length segments - 1) = Str t \<and>
        re_compile py (''^'' @ t @ ''$'') (compile_flags self) = Inr r \<and>
        re_match py r (name other_entry) \<and>
        CheckFileEntryType self other_entry \<and> CheckIsAllocated self other_entry
        \<longrightarrow> (\<exists>self'. Matches py self other_entry (int (length segments)) = Inr (True, self')))"
proof (intro conjI impI)
  have n: "spec_number_of_location_segments self = length segments"
    using assms by (simp add: FindSpec_ok_def)
  have g: "get_item segments (search_depth - 1) = Inr (Str s)"
    using assms by (simp add: get_item_in_range)
  have "segment_name_at py self segments search_depth = Inr None"
    using assms g by (simp add: segment_name_at_def uncaught_def)
  then show m: "Matches py self file_entry search_depth = Inr (False, self)"
    using assms n by (simp add: Matches_def)
  show "find_specs_loop py file_entry search_depth (a # rest) h =
           (case find_specs_loop py file_entry search_depth rest h of
              (ys, sub_find_specs, err, h') \<Rightarrow>
                (ys, (if AtMaximumDepth self search_depth then [] else [a]) @ sub_find_specs,
                 err, h'))"
    if "heap_get h a = self"
    using that m heap_set_get[of h a]
    by (simp add: Let_def split: prod.splits)
next
  assume c: "search_depth < int (length segments) \<and>
        segments ! (length segments - 1) = Str t \<and>
        re_compile py (''^'' @ t @ ''$'') (compile_flags self) = Inr r \<and>
        re_match py r (name other_entry) \<and>
        CheckFileEntryType self other_entry \<and> CheckIsAllocated self other_entry"
  then have "segments \<noteq> []" using assms(4) by auto
  then show "\<exists>self'. Matches py self other_entry (int (length segments)) = Inr (True, self')"
    using Matches_last_segment[OF assms(1,2,3)] c by blast
qed

text \<open>
  The find specification of the regular expressions \<open>a\<close> and \<open>[\<close> after \<open>Initialize\<close>,
  with the example interpreter that rejects \<open>^[$\<close>: at depth 2 no entry matches and the
  object is unchanged; at depth 1 the answer is given without an exception.
\<close>

theorem Matches_malformed_segment_witness:
  "Matches example_python
     (Initialize (example_file_system None) (location_spec [''a'', ''[''] True True))
     (example_file ''['' ''/a/['') 2 =
   Inr (False, Initialize (example_file_system None) (location_spec [''a'', ''[''] True True))
   \<and> map_sum id fst (Matches example_python
     (Initialize (example_file_system None) (location_spec [''a'', ''[''] True True))
     (example_directory ''a'' ''/a'') 1) = Inr False"
proof -
  let ?s = "Initialize (example_file_system None) (location_spec [''a'', ''[''] True True)
              :: (string \<times> bool) FindSpec"
  have ok: "FindSpec_ok ?s"
    by (rule FindSpec_ok_Initialize[OF FindSpec_init_location_list(2)])
  have r: "spec_is_regex ?s = Some True"
    and segs: "spec_location_segments ?s = Some [Str ''a'', Str ''['']"
    and cs: "spec_is_case_sensitive ?s"
    by (simp_all add: Initialize_location_spec) (simp_all add: location_spec_def)
  have c: "re_compile example_python (''^'' @ ''['' @ ''$'') (compile_flags ?s) =
      Inl sre_constants_error"
    by (simp add: compile_flags_def cs) (simp add: example_python_def startswith_def)
  have 1: "map_sum id fst (Matches example_python ?s (example_directory ''a'' ''/a'') 1) = Inr False"
    by code_simp
  show ?thesis
    using Matches_malformed_segment[OF ok r segs _ _ _ c, of 2 "example_file ''['' ''/a/[''"] 1
    by simp
qed

text \<open>
  Against claim C7 as first stated (the find specification never matches): the find
  specification of the regular expressions \<open>[\<close> and \<open>b\<close>, whose first segment is
  rejected by \<open>re.compile\<close>. At depth 1 \<open>Matches\<close> returns false for \<open>a\<close>; since the
  specification is not at its maximum depth there, the search goes on below \<open>a\<close>, and at
  depth 2 only the segment \<open>b\<close> is looked at: the entry \<open>b\<close> matches, and \<open>Find\<close> yields
  the path specification of \<open>/a/b\<close>.
\<close>

theorem Matches_malformed_segment_not_last:
  "re_compile example_python ''^[$'' [DOTALL, UNICODE] = Inl sre_constants_error
   \<and> map_sum id fst (Matches example_python
        (Initialize (example_file_system None) (location_spec [''['', ''b''] True True))
        (example_directory ''a'' ''/a'') 1) = Inr False
   \<and> map_sum id fst (Matches example_python
        (Initialize (example_file_system None) (location_spec [''['', ''b''] True True))
        (example_file ''b'' ''/a/b'') 2) = Inr True
   \<and> fst (Find example_python (example_searcher None) (Some [0])
        (snd (heap_new empty_heap (location_spec [''['', ''b''] True True)))) = [''/a/b'']
   \<and> fst (snd (Find example_python (example_searcher None) (Some [0])
        (snd (heap_new empty_heap (location_spec [''['', ''b''] True True))))) = None"
proof (intro conjI)
  show "re_compile example_python ''^[$'' [DOTALL, UNICODE] = Inl sre_constants_error"
    by code_simp
  show "map_sum id fst (Matches example_python
        (Initialize (example_file_system None) (location_spec [''['', ''b''] True True))
        (example_directory ''a'' ''/a'') 1) = Inr False"
    by code_simp
  show "map_sum id fst (Matches example_python
        (Initialize (example_file_system None) (location_spec [''['', ''b''] True True))
        (example_file ''b'' ''/a/b'') 2) = Inr True"
    by code_simp
  show "fst (Find example_python (example_searcher None) (Some [0])
        (snd (heap_new empty_heap (location_spec [''['', ''b''] True True)))) = [''/a/b'']"
    by code_simp
  show "fst (snd (Find example_python (example_searcher None) (Some [0])
        (snd (heap_new empty_heap (location_spec [''['', ''b''] True True))))) = None"
    by code_simp
qed

subsection \<open>The allocation check\<close>

lemma CheckIsAllocated_no_preference:
  "spec_is_allocated self = None \<Longrightarrow> \<not> CheckIsAllocated self file_entry"
  by (simp add: CheckIsAllocated_def)

lemma CheckIsAllocated_required:
  "spec_is_allocated self = Some b \<Longrightarrow>
     CheckIsAllocated self file_entry = (IsAllocated file_entry = b)"
  by (auto simp: CheckIsAllocated_def)

text \<open>
  Claim C2 says that a find specification built with \<open>is_allocated=None\<close> (no
  preference) passes the allocation check for every file entry. The source returns
  false from \<open>_CheckIsAllocated\<close> in that case: the find specification
  \<open>FindSpec(is_allocated=None)\<close> matches no file entry at any depth, while the default
  find specification matches the allocated file of the example.
\<close>

theorem Matches_no_preference_is_false:
  "Matches py no_preference_spec file_entry search_depth = Inr (False, no_preference_spec)
   \<and> Matches py FindSpec_default (example_file ''b'' ''/a/b'') 0 = Inr (True, FindSpec_default)"
  by (simp add: Matches_def no_preference_spec_def FindSpec_default_def CheckIsAllocated_def
        CheckFileEntryType_def CheckIs_def example_file_def)


section \<open>Properties of the searcher\<close>

text \<open>
  Claim C1 says that \<open>Find\<close> with no find specifications, \<open>None\<close> or an empty list, goes
  on with one default find specification. The source calls \<open>find_specs.append\<close> in both
  cases: with \<open>None\<close> the iteration ends at once with \<open>AttributeError\<close> and yields
  nothing.
\<close>

theorem Find_None_raises:
  "Find py self None h = ([], Some AttributeError, h)"
  by (simp add: Find_def)

text \<open>
  With the empty list the default find specification is appended, and the search yields
  what it matches: on the example tree, every entry.
\<close>

lemma Find_empty_list:
  "Find py self (Some []) h =
     Find py self (Some [heap_next h]) (snd (heap_new h FindSpec_default))"
  by (simp add: Find_def heap_new_def Let_def)

lemma Find_example_None:
  "fst (Find example_python (example_searcher None) (Some []) empty_heap) =
     [''/'', ''/a'', ''/a/b'', ''/c'']"
  "fst (snd (Find example_python (example_searcher None) (Some []) empty_heap)) = None"
  by code_simp+

subsection \<open>Access errors\<close>

lemma uncaught_not_AccessError: "uncaught x \<noteq> Some AccessError"
  by (cases x) (simp_all add: uncaught_def)

lemma segment_name_at_not_AccessError:
  "segment_name_at py self segments d \<noteq> Inl AccessError"
  using uncaught_not_AccessError
  by (auto simp: segment_name_at_def get_item_def Let_def
      split: option.splits sum.splits segment.splits)

lemma segment_name_matches_not_AccessError:
  "segment_name_matches py self seg n d \<noteq> Inl AccessError"
  by (simp add: segment_name_matches_def split: segment.splits)

lemma Matches_not_AccessError: "Matches py self file_entry d \<noteq> Inl AccessError"
proof (cases "spec_location_segments self")
  case None
  then show ?thesis by (simp add: Matches_def)
next
  case (Some segments)
  show ?thesis
  proof (cases "segment_name_at py self segments d")
    case (Inl e)
    then have "e \<noteq> AccessError" using segment_name_at_not_AccessError[of py self segments d] by auto
    then show ?thesis using Some Inl by (simp add: Matches_def)
  next
    case (Inr r)
    show ?thesis
    proof (cases r)
      case None
      then show ?thesis using Some Inr by (simp add: Matches_def)
    next
      case (Some p)
      obtain seg s1 where p: "p = (seg, s1)" by (cases p)
      show ?thesis
      proof (cases "segment_name_matches py s1 seg (name file_entry) d")
        case (Inl e)
        then have "e \<noteq> AccessError"
          using segment_name_matches_not_AccessError[of py s1 seg "name file_entry" d] by auto
        then show ?thesis using \<open>spec_location_segments self = _\<close> Inr Some p Inl
          by (simp add: Matches_def)
      next
        case (Inr b)
        then show ?thesis
          using \<open>spec_location_segments self = _\<close> \<open>segment_name_at py self segments d = _\<close> Some p
          by (simp add: Matches_def)
      qed
    qed
  qed
qed

lemma find_specs_loop_not_AccessError:
  "fst (snd (snd (find_specs_loop py attrs d find_specs h))) \<noteq> Some AccessError"
proof (induction find_specs arbitrary: h)
  case Nil
  then show ?case by simp
next
  case (Cons a find_specs)
  show ?case
  proof (cases "Matches py (heap_get h a) attrs d")
    case (Inl e)
    then show ?thesis using Matches_not_AccessError[of py "heap_get h a" attrs d] by simp
  next
    case (Inr r)
    obtain b s where r: "r = (b, s)" by (cases r)
    show ?thesis using Inr r Cons.IH[of "heap_set h a s"]
      by (auto simp: Let_def split: prod.splits)
  qed
qed

text \<open>
  The exception that ends the enumeration of the sub file entries only shows once every
  sub file entry has been searched.
\<close>

lemma sub_file_entries_loop_raises:
  "sub_file_entries_loop py subs raises find_specs d h =
     (case sub_file_entries_loop py subs None find_specs d h of
        (zs, None, h2) \<Rightarrow> (zs, raises, h2)
      | (zs, Some e, h2) \<Rightarrow> (zs, Some e, h2))"
  by (induction subs arbitrary: h) (auto split: prod.splits option.splits)

lemma FindInFileEntry_not_AccessError:
  "fst (snd (FindInFileEntry py file_entry find_specs d h)) \<noteq> Some AccessError"
proof (cases file_entry)
  case (FileEntry attrs subs raises)
  obtain ys sub err h1 where l: "find_specs_loop py attrs d find_specs h = (ys, sub, err, h1)"
    by (cases "find_specs_loop py attrs d find_specs h") auto
  have "err \<noteq> Some AccessError"
    using find_specs_loop_not_AccessError[of py attrs d find_specs h] l by simp
  then show ?thesis using FileEntry l
    by (auto split: prod.splits option.splits)
qed

lemma Find_not_AccessError:
  "fst (snd (Find py self find_specs h)) \<noteq> Some AccessError"
proof (cases find_specs)
  case None
  then show ?thesis by (simp add: Find_def)
next
  case (Some l)
  then show ?thesis
    by (auto simp: Find_def Let_def FindInFileEntry_not_AccessError
        split: prod.splits option.splits)
qed

text \<open>
  Claim C8. For every file entry whose enumeration of sub file entries ends with
  \<open>AccessError\<close>: \<open>_FindInFileEntry\<close> returns what it returns when the enumeration
  simply ends there, so the error is caught and the matches of the entry itself are kept;
  when the enumeration fails before its first entry, that is the outcome of the first loop
  alone, as for an entry with no sub file entries; the search of the entries that follow
  it in its parent is the same; and \<open>_FindInFileEntry\<close> never ends with \<open>AccessError\<close>.
\<close>

theorem FindInFileEntry_AccessError:
  "FindInFileEntry py (FileEntry attrs subs (Some AccessError)) find_specs d h =
     FindInFileEntry py (FileEntry attrs subs None) find_specs d h
   \<and> FindInFileEntry py (FileEntry attrs [] (Some AccessError)) find_specs d h =
       (case find_specs_loop py attrs d find_specs h of (ys, sub, err, h1) \<Rightarrow> (ys, err, h1))
   \<and> sub_file_entries_loop py (FileEntry attrs subs (Some AccessError) # rest) raises
       find_specs d h =
     sub_file_entries_loop py (FileEntry attrs subs None # rest) raises find_specs d h
   \<and> fst (snd (FindInFileEntry py file_entry find_specs d h)) \<noteq> Some AccessError"
proof -
  have a: "FindInFileEntry py (FileEntry attrs subs (Some AccessError)) find_specs d h =
     FindInFileEntry py (FileEntry attrs subs None) find_specs d h" for subs
    by (simp add: sub_file_entries_loop_raises[of py subs "Some AccessError"]
          split: prod.splits option.splits)
  have b: "FindInFileEntry py (FileEntry attrs [] (Some AccessError)) find_specs d h =
       (case find_specs_loop py attrs d find_specs h of (ys, sub, err, h1) \<Rightarrow> (ys, err, h1))"
    by (simp split: prod.splits option.splits)
  have c: "sub_file_entries_loop py (FileEntry attrs subs (Some AccessError) # rest) raises
       find_specs d h =
     sub_file_entries_loop py (FileEntry attrs subs None # rest) raises find_specs d h"
    unfolding sub_file_entries_loop.simps a ..
  show ?thesis using a b c FindInFileEntry_not_AccessError by blast
qed

text \<open>
  The entry \<open>/a\<close> of the example, with an enumeration that ends with \<open>AccessError\<close> after
  \<open>/a/b\<close>, searched with the default find specification; and the whole example tree,
  first with that access error, then with an error of the back end, which is not caught.
\<close>

theorem FindInFileEntry_AccessError_witness:
  "fst (FindInFileEntry example_python
          (FileEntry (example_directory ''a'' ''/a'')
             [FileEntry (example_file ''b'' ''/a/b'') [] None] (Some AccessError))
          [0] 1 (snd (heap_new empty_heap FindSpec_default))) = [''/a'', ''/a/b'']
   \<and> fst (snd (FindInFileEntry example_python
          (FileEntry (example_directory ''a'' ''/a'')
             [FileEntry (example_file ''b'' ''/a/b'') [] None] (Some AccessError))
          [0] 1 (snd (heap_new empty_heap FindSpec_default)))) = None"
proof -
  have eq: "FindInFileEntry example_python
          (FileEntry (example_directory ''a'' ''/a'')
             [FileEntry (example_file ''b'' ''/a/b'') [] None] (Some AccessError))
          [0] 1 (snd (heap_new empty_heap FindSpec_default)) =
        FindInFileEntry example_python
          (FileEntry (example_directory ''a'' ''/a'')
             [FileEntry (example_file ''b'' ''/a/b'') [] None] None)
          [0] 1 (snd (heap_new empty_heap FindSpec_default))"
    by (rule FindInFileEntry_AccessError[THEN conjunct1])
  have n: "fst (FindInFileEntry example_python
          (FileEntry (example_directory ''a'' ''/a'')
             [FileEntry (example_file ''b'' ''/a/b'') [] None] None)
          [0] 1 (snd (heap_new empty_heap FindSpec_default))) = [''/a'', ''/a/b'']"
    by code_simp
  have m: "fst (snd (FindInFileEntry example_python
          (FileEntry (example_directory ''a'' ''/a'')
             [FileEntry (example_file ''b'' ''/a/b'') [] None] None)
          [0] 1 (snd (heap_new empty_heap FindSpec_default)))) = None"
    by code_simp
  show ?thesis unfolding eq using n m by (rule conjI)
qed

lemma Find_example_AccessError:
  "fst (Find example_python (example_searcher (Some AccessError)) (Some []) empty_heap) =
     [''/'', ''/a'', ''/a/b'', ''/c'']"
  "fst (snd (Find example_python (example_searcher (Some AccessError)) (Some []) empty_heap)) = None"
  by code_simp+

lemma Find_example_BackEndError:
  "fst (Find example_python (example_searcher (Some BackEndError)) (Some []) empty_heap) =
     [''/'', ''/a'', ''/a/b'']"
  "fst (snd (Find example_python (example_searcher (Some BackEndError)) (Some []) empty_heap)) =
     Some BackEndError"
  by code_simp+


section \<open>Properties of the TSK partition helper\<close>

text \<open>
  The location \<open>/p1\<close> selects the first allocated part of the example volume, with
  partition index 0, when \<open>int\<close> reads \<open>1\<close> as the number 1.
\<close>

lemma GetTSKVsPartByPathSpec_example:
  "GetTSKVsPartByPathSpec example_int10 example_volume
     \<lparr>location = Some ''/p1'', part_index = None, start_offset = None\<rparr>
   = Inr (Some \<lparr>flags = Some TSK_VS_PART_FLAG_ALLOC, start = Some 2048, len = Some 4096\<rparr>,
          Some 0)"
  by code_simp

text \<open>
  Claim C10. For every volume and every path specification with no \<open>part_index\<close>, no
  \<open>start_offset\<close> and no location of the form \<open>/pN\<close> where \<open>int\<close> reads \<open>N\<close> as a number
  of at least 1 (so: no location, a location that does not start with \<open>/p\<close>, a rest
  for which \<open>int\<close> raises \<open>ValueError\<close>, or a number of 0 or less),
  \<open>GetTSKVsPartByPathSpec\<close> returns \<open>(None, None)\<close>, whatever strings \<open>int\<close> reads.
\<close>

theorem GetTSKVsPartByPathSpec_nothing_to_select:
  assumes "part_index pspec = None" and "start_offset pspec = None"
    and "\<not> (\<exists>l n. location pspec = Some l \<and> startswith l ''/p'' \<and>
              int10 (slice_from l 2) = Some n \<and> 1 \<le> n)"
  shows "GetTSKVsPartByPathSpec int10 volume pspec = Inr (None, None)"
proof (cases "location pspec")
  case None
  then show ?thesis using assms by (simp add: GetTSKVsPartByPathSpec_def Let_def)
next
  case (Some l)
  show ?thesis
  proof (cases "startswith l ''/p''")
    case False
    then show ?thesis using assms Some by (simp add: GetTSKVsPartByPathSpec_def Let_def)
  next
    case True
    show ?thesis
    proof (cases "int10 (slice_from l 2)")
      case None
      then show ?thesis using assms Some True by (simp add: GetTSKVsPartByPathSpec_def Let_def)
    next
      case (Some n)
      then have "\<not> 1 \<le> n" using assms(3) \<open>location pspec = Some l\<close> True by simp
      then show ?thesis using assms \<open>location pspec = Some l\<close> True Some
        by (simp add: GetTSKVsPartByPathSpec_def Let_def)
    qed
  qed
qed

text \<open>
  The example volume with the locations \<open>/p0\<close>, \<open>/px\<close> and \<open>p1\<close>, and with no
  location.
\<close>

theorem GetTSKVsPartByPathSpec_nothing_to_select_witness:
  "GetTSKVsPartByPathSpec example_int10 example_volume
     \<lparr>location = Some ''/p0'', part_index = None, start_offset = None\<rparr> = Inr (None, None)
   \<and> GetTSKVsPartByPathSpec example_int10 example_volume
     \<lparr>location = Some ''/px'', part_index = None, start_offset = None\<rparr> = Inr (None, None)
   \<and> GetTSKVsPartByPathSpec example_int10 example_volume
     \<lparr>location = Some ''p1'', part_index = None, start_offset = None\<rparr> = Inr (None, None)
   \<and> GetTSKVsPartByPathSpec example_int10 example_volume
     \<lparr>location = None, part_index = None, start_offset = None\<rparr> = Inr (None, None)"
proof -
  have a: "example_int10 (slice_from ''/p0'' 2) = Some 0"
    by (simp add: slice_from_def slice_bound_def example_int10_def strip_def is_space_def
          digit_value_def)
  have b: "example_int10 (slice_from ''/px'' 2) = None"
    by (simp add: slice_from_def slice_bound_def example_int10_def strip_def is_space_def
          digit_value_def)
  have c: "\<not> startswith ''p1'' ''/p''" by (simp add: startswith_def)
  show ?thesis
    using GetTSKVsPartByPathSpec_nothing_to_select
            [of "\<lparr>location = Some ''/p0'', part_index = None, start_offset = None\<rparr>"
                example_int10 example_volume]
          GetTSKVsPartByPathSpec_nothing_to_select
            [of "\<lparr>location = Some ''/px'', part_index = None, start_offset = None\<rparr>"
                example_int10 example_volume]
          GetTSKVsPartByPathSpec_nothing_to_select
            [of "\<lparr>location = Some ''p1'', part_index = None, start_offset = None\<rparr>"
                example_int10 example_volume]
          GetTSKVsPartByPathSpec_nothing_to_select
            [of "\<lparr>location = None, part_index = None, start_offset = None\<rparr>"
                example_int10 example_volume]
          a b c
    by simp
qed

text \<open>
  The theorem follows the interpreter's \<open>int\<close>: for every location that starts with
  \<open>/p\<close> and whose rest \<open>int\<close> reads as the number 1 (for an interpreter that drops a
  no-break space, also the rest made of that space and the digit 1), the first allocated
  part of the example volume is selected.
\<close>

lemma GetTSKVsPartByPathSpec_first_partition:
  assumes "startswith l ''/p''" and "int10 (slice_from l 2) = Some 1"
  shows "GetTSKVsPartByPathSpec int10 example_volume
           \<lparr>location = Some l, part_index = None, start_offset = None\<rparr>
         = Inr (Some \<lparr>flags = Some TSK_VS_PART_FLAG_ALLOC, start = Some 2048,
                      len = Some 4096\<rparr>, Some 0)"
  using assms
  by (simp add: GetTSKVsPartByPathSpec_def example_volume_def TSKVsPartIsAllocated_def
        TSKVolumeGetBytesPerSector_def TSKVsPartGetStartSector_def Let_def)

text \<open>
  A volume whose \<open>info.block_size\<close> is \<open>None\<close>: the search by start offset raises
  \<open>TypeError\<close> at the first part that has a start sector.
\<close>

lemma GetTSKVsPartByPathSpec_block_size_None:
  "GetTSKVsPartByPathSpec int10 (example_volume\<lparr>info := Some (Present None)\<rparr>)
     \<lparr>location = None, part_index = None, start_offset = Some 1048576\<rparr> = Inl TypeError"
  by (simp add: GetTSKVsPartByPathSpec_def example_volume_def TSKVsPartIsAllocated_def
        TSKVolumeGetBytesPerSector_def TSKVsPartGetStartSector_def Let_def)

end
